theory Spec2Isabelle
  imports Main "HOL-Library.AList"
begin

section \<open>Values, trees and the threaded state of \<open>ol/xml\<close>\<close>

text \<open>
  The module \<open>src/ol/xml.js\<close> is a dispatch engine over DOM trees. Its handlers
  (parsers, value readers, serializers, node writers, node factories) are JavaScript
  closures that receive the object stack by reference and may mutate it, so every
  function of the model takes the state and returns the new one, and every handler is
  a parameter. An exception travels with the state in which it was thrown, since the
  mutations made before a \<open>throw\<close> stay.

  A tree that is read is an immutable value of type \<open>node\<close>, with the DOM fields the
  module reads. An element that is written is a handle of type \<open>elem\<close>: its identity,
  namespace and local name are fixed at creation, and what \<open>appendChild\<close> changes is
  kept in the state under the identity.

  JavaScript values are modelled by value: each slot of the object stack owns its
  accumulator, and records are association lists of their own properties, in insertion
  order. Records and tables are plain objects: a property that is not their own is read
  through \<open>Object.prototype\<close>, whose properties are listed in \<open>objectPrototypeNames\<close>.
\<close>

datatype node = Node (nodeType: nat) (namespaceURI: "string option") (localName: string)
  (nodeValue: string) (childNodes: "node list")

definition ELEMENT_NODE :: nat where
  "ELEMENT_NODE = 1"

definition elementChildren :: "node \<Rightarrow> node list" where
  \<comment> \<open>the chain \<open>firstElementChild\<close>, \<open>nextElementSibling\<close>, ...\<close>
  "elementChildren n = filter (\<lambda>c. nodeType c = ELEMENT_NODE) (childNodes n)"

datatype elem = Elem (ident: nat) (elemNamespaceURI: "string option") (elemLocalName: string)

datatype jsval =
    Undefined
  | Null
  | Bool bool
  | Num int
  | Str string
  | Arr "jsval list"
  | Obj "(string \<times> jsval) list"
  | NodeVal elem
  | Builtin string \<comment> \<open>the property of \<open>Object.prototype\<close> of that name\<close>

datatype error =
    TypeError
  | Thrown jsval \<comment> \<open>an exception raised by a handler\<close>
  | Unmodelled \<comment> \<open>JavaScript behaviour the model does not follow\<close>

record state =
  objectStack :: "jsval list"
  nextId :: nat \<comment> \<open>\<open>DOCUMENT\<close>: the identities handed out so far\<close>
  children :: "nat \<Rightarrow> elem list"
  attributes :: "nat \<Rightarrow> (string \<times> string) list"
  cells :: "nat \<Rightarrow> (string option \<times> string) option"
    \<comment> \<open>the closure variables of each serializer made by \<open>makeArraySerializer\<close>\<close>

type_synonym effect = "(error \<times> state) + state"
type_synonym 'a result = "(error \<times> state) + ('a \<times> state)"

text \<open>
  Handlers take the receiver (\<open>this\<close>) first and the state last; the object stack
  argument of the source is the field \<open>objectStack\<close> of the state.
\<close>

type_synonym parser = "jsval \<Rightarrow> node \<Rightarrow> state \<Rightarrow> effect"
type_synonym valueReader = "jsval \<Rightarrow> node \<Rightarrow> state \<Rightarrow> jsval result"
type_synonym serializer = "jsval \<Rightarrow> elem \<Rightarrow> jsval \<Rightarrow> state \<Rightarrow> effect"
type_synonym nodeFactory = "jsval \<Rightarrow> jsval \<Rightarrow> string option \<Rightarrow> state \<Rightarrow> (elem option) result"
type_synonym 'h table = "string \<rightharpoonup> (string \<rightharpoonup> 'h)"

fun propertyKey :: "string option \<Rightarrow> string" where
  \<comment> \<open>a \<open>namespaceURI\<close> used as a property name: \<open>null\<close> becomes the string \<open>null\<close>\<close>
  "propertyKey None = ''null''"
| "propertyKey (Some s) = s"

definition objectPrototypeNames :: "string list" where
  \<comment> \<open>the properties every plain object inherits\<close>
  "objectPrototypeNames =
     [''constructor'', ''__defineGetter__'', ''__defineSetter__'', ''hasOwnProperty'',
      ''__lookupGetter__'', ''__lookupSetter__'', ''isPrototypeOf'', ''propertyIsEnumerable'',
      ''toString'', ''valueOf'', ''__proto__'', ''toLocaleString'']"

datatype 'h member =
    Own 'h
  | Inherited string \<comment> \<open>not an own property, found on \<open>Object.prototype\<close>\<close>
  | Missing \<comment> \<open>the read gives \<open>undefined\<close>\<close>

definition getMember :: "(string \<rightharpoonup> 'h) \<Rightarrow> string \<Rightarrow> 'h member" where
  \<comment> \<open>\<open>table[key]\<close> on a plain object\<close>
  "getMember t key =
     (case t key of
        Some h \<Rightarrow> Own h
      | None \<Rightarrow> if key \<in> set objectPrototypeNames then Inherited key else Missing)"

definition callInherited :: "string \<Rightarrow> state \<Rightarrow> effect" where
  \<comment> \<open>\<open>handler.call(opt_this, ...)\<close> where \<open>handler\<close> was read from \<open>Object.prototype\<close>:
      \<open>__proto__\<close> reads \<open>Object.prototype\<close> itself, which has no \<open>call\<close>; \<open>Object\<close> and
      \<open>Object.prototype.toString\<close> return for every receiver and arguments and change
      nothing; what the other functions do depends on the receiver and is not followed\<close>
  "callInherited key st =
     (if key = ''__proto__'' then Inl (TypeError, st)
      else if key = ''constructor'' \<or> key = ''toString'' then Inr st
      else Inl (Unmodelled, st))"

definition lookupNS :: "'h table \<Rightarrow> string option \<Rightarrow> string \<Rightarrow> 'h option" where
  \<comment> \<open>the handler a table holds as its own entry for a namespace and a local name\<close>
  "lookupNS t ns name = (case t (propertyKey ns) of None \<Rightarrow> None | Some inner \<Rightarrow> inner name)"

definition stackTop :: "state \<Rightarrow> jsval" where
  \<comment> \<open>\<open>objectStack[objectStack.length - 1]\<close>\<close>
  "stackTop st = (if objectStack st = [] then Undefined else last (objectStack st))"

definition setTop :: "jsval \<Rightarrow> state \<Rightarrow> state" where
  \<comment> \<open>the accumulator at the top mutated in place, or the top slot assigned\<close>
  "setTop v st = st\<lparr>objectStack := (objectStack st)[length (objectStack st) - 1 := v]\<rparr>"

definition push :: "jsval \<Rightarrow> state \<Rightarrow> state" where
  "push v st = st\<lparr>objectStack := objectStack st @ [v]\<rparr>"

definition pop :: "state \<Rightarrow> jsval \<times> state" where
  \<comment> \<open>\<open>Array.prototype.pop\<close>: \<open>undefined\<close> from an empty array, which stays empty\<close>
  "pop st = (stackTop st, st\<lparr>objectStack := butlast (objectStack st)\<rparr>)"

definition depth :: "state \<Rightarrow> nat" where
  "depth st = length (objectStack st)"

section \<open>The tree provider\<close>

text \<open>
  \<open>createElementNS\<close> of the source calls \<open>DOCUMENT.createElementNS\<close>. The local name
  of a DOM node has no prefix part and its namespace is never the empty string; at such
  arguments the provider hands out a new element with exactly the namespace and the local
  name it is given, which is what the definition states. At other arguments (a qualified
  name with a prefix, the empty namespace, a string that is not a name) the provider
  splits the name, turns the namespace into \<open>null\<close> or throws; the definition does not
  follow it there.
\<close>

definition createElementNS :: "string option \<Rightarrow> string \<Rightarrow> state \<Rightarrow> elem \<times> state" where
  "createElementNS ns qualifiedName st =
     (Elem (nextId st) ns qualifiedName, st\<lparr>nextId := Suc (nextId st)\<rparr>)"

definition appendChild :: "elem \<Rightarrow> elem \<Rightarrow> state \<Rightarrow> state" where
  \<comment> \<open>a node that has a parent is moved\<close>
  "appendChild parentNode n st =
     st\<lparr>children := (\<lambda>q. if q = ident parentNode
                          then removeAll n (children st q) @ [n]
                          else removeAll n (children st q))\<rparr>"

definition setAttribute :: "elem \<Rightarrow> string \<Rightarrow> string \<Rightarrow> state \<Rightarrow> state" where
  "setAttribute n name v st =
     st\<lparr>attributes := (attributes st)(ident n := AList.update name v (attributes st (ident n)))\<rparr>"

section \<open>Read direction\<close>

text \<open>
  Modelled from the spec: \<open>extend\<close> is imported from \<open>./array.js\<close>, which is not among
  the sources. The spec says of array-extend: read a sequence; append all its elements
  to the top-of-stack sequence. The result is \<open>None\<close> where the spec says nothing.
\<close>

fun extend :: "jsval \<Rightarrow> jsval \<Rightarrow> jsval option" where
  "extend (Arr arr) (Arr data) = Some (Arr (arr @ data))"
| "extend _ _ = None"

definition makeArrayExtender :: "valueReader \<Rightarrow> jsval \<Rightarrow> parser" where
  "makeArrayExtender valueReader opt_this = (\<lambda>this n st.
     case valueReader opt_this n st of
       Inl x \<Rightarrow> Inl x
     | Inr (value, st1) \<Rightarrow>
         if value \<noteq> Undefined then
           (case extend (stackTop st1) value of
              None \<Rightarrow> Inl (Unmodelled, st1)
            | Some array \<Rightarrow> Inr (setTop array st1))
         else Inr st1)"


fun parseChildren :: "parser table \<Rightarrow> node list \<Rightarrow> jsval \<Rightarrow> state \<Rightarrow> effect" where
  \<comment> \<open>the loop of \<open>parseNode\<close>; a namespace that is itself the name of a property of
      \<open>Object.prototype\<close> makes \<open>parsers\<close> a built-in object, which is not followed\<close>
  "parseChildren parsersNS [] opt_this st = Inr st"
| "parseChildren parsersNS (n # rest) opt_this st =
     (case getMember parsersNS (propertyKey (namespaceURI n)) of
        Missing \<Rightarrow> parseChildren parsersNS rest opt_this st
      | Inherited k \<Rightarrow> Inl (Unmodelled, st)
      | Own parsers \<Rightarrow>
          (case getMember parsers (localName n) of
             Missing \<Rightarrow> parseChildren parsersNS rest opt_this st
           | Inherited k \<Rightarrow>
               (case callInherited k st of
                  Inl x \<Rightarrow> Inl x
                | Inr st1 \<Rightarrow> parseChildren parsersNS rest opt_this st1)
           | Own parser \<Rightarrow>
               (case parser opt_this n st of
                  Inl x \<Rightarrow> Inl x
                | Inr st1 \<Rightarrow> parseChildren parsersNS rest opt_this st1)))"

definition parseNode :: "parser table \<Rightarrow> node \<Rightarrow> jsval \<Rightarrow> state \<Rightarrow> effect" where
  "parseNode parsersNS n opt_this st = parseChildren parsersNS (elementChildren n) opt_this st"

definition pushParseAndPop :: "jsval \<Rightarrow> parser table \<Rightarrow> node \<Rightarrow> jsval \<Rightarrow> state \<Rightarrow> jsval result" where
  "pushParseAndPop object parsersNS n opt_this st =
     (case parseNode parsersNS n opt_this (push object st) of
        Inl x \<Rightarrow> Inl x
      | Inr st1 \<Rightarrow> Inr (pop st1))"

section \<open>Write direction\<close>

definition index :: "jsval list \<Rightarrow> nat \<Rightarrow> jsval" where
  \<comment> \<open>\<open>values[i]\<close>: \<open>undefined\<close> beyond the end\<close>
  "index values i = (if i < length values then values ! i else Undefined)"

function serializeLoop :: "serializer table \<Rightarrow> nodeFactory \<Rightarrow> jsval list \<Rightarrow> string list option
    \<Rightarrow> jsval \<Rightarrow> nat \<Rightarrow> nat \<Rightarrow> state \<Rightarrow> effect" where
  "serializeLoop serializersNS nodeFactory values opt_keys opt_this len i st =
     (if i < len then
        (let value = index values i in
         if value \<noteq> Undefined then
           (case nodeFactory opt_this value
                   (case opt_keys of Some keys \<Rightarrow> Some (keys ! i) | None \<Rightarrow> None) st of
              Inl x \<Rightarrow> Inl x
            | Inr (None, st1) \<Rightarrow>
                serializeLoop serializersNS nodeFactory values opt_keys opt_this len (Suc i) st1
            | Inr (Some n, st1) \<Rightarrow>
                (case getMember serializersNS (propertyKey (elemNamespaceURI n)) of
                   Missing \<Rightarrow> Inl (TypeError, st1)
                 | Inherited k \<Rightarrow> Inl (Unmodelled, st1)
                 | Own serializers \<Rightarrow>
                     (case (case getMember serializers (elemLocalName n) of
                              Missing \<Rightarrow> Inl (TypeError, st1)
                            | Inherited k \<Rightarrow> callInherited k st1
                            | Own s \<Rightarrow> s opt_this n value st1) of
                        Inl x \<Rightarrow> Inl x
                      | Inr st2 \<Rightarrow>
                          serializeLoop serializersNS nodeFactory values opt_keys opt_this
                            len (Suc i) st2)))
         else serializeLoop serializersNS nodeFactory values opt_keys opt_this len (Suc i) st)
      else Inr st)"
  by pat_completeness auto
termination
  by (relation "measure (\<lambda>(S, F, values, opt_keys, opt_this, len, i, st). len - i)") auto

declare serializeLoop.simps [simp del]

definition serialize :: "serializer table \<Rightarrow> nodeFactory \<Rightarrow> jsval list \<Rightarrow> string list option
    \<Rightarrow> jsval \<Rightarrow> state \<Rightarrow> effect" where
  "serialize serializersNS nodeFactory values opt_keys opt_this st =
     serializeLoop serializersNS nodeFactory values opt_keys opt_this
       (case opt_keys of Some keys \<Rightarrow> length keys | None \<Rightarrow> length values) 0 st"

definition pushSerializeAndPop :: "jsval \<Rightarrow> serializer table \<Rightarrow> nodeFactory \<Rightarrow> jsval list
    \<Rightarrow> string list option \<Rightarrow> jsval \<Rightarrow> state \<Rightarrow> jsval result" where
  "pushSerializeAndPop object serializersNS nodeFactory values opt_keys opt_this st =
     (case serialize serializersNS nodeFactory values opt_keys opt_this (push object st) of
        Inl x \<Rightarrow> Inl x
      | Inr st1 \<Rightarrow> Inr (pop st1))"

fun getNode :: "jsval \<Rightarrow> error + jsval" where
  \<comment> \<open>\<open>context.node\<close>: reading a property of \<open>undefined\<close> or \<open>null\<close> is a TypeError\<close>
  "getNode Undefined = Inl TypeError"
| "getNode Null = Inl TypeError"
| "getNode (Obj object) = (case map_of object ''node'' of None \<Rightarrow> Inr Undefined | Some v \<Rightarrow> Inr v)"
| "getNode _ = Inr Undefined"

fun getNamespaceURI :: "jsval \<Rightarrow> error + string option" where
  \<comment> \<open>\<open>node.namespaceURI\<close>, for the \<open>node\<close> of a \<open>NodeStackItem\<close>\<close>
  "getNamespaceURI (NodeVal n) = Inr (elemNamespaceURI n)"
| "getNamespaceURI Undefined = Inl TypeError"
| "getNamespaceURI Null = Inl TypeError"
| "getNamespaceURI _ = Inl Unmodelled"

fun toString :: "string option \<Rightarrow> string" where
  \<comment> \<open>a node name that is \<open>undefined\<close> reaches the provider as the string \<open>undefined\<close>\<close>
  "toString None = ''undefined''"
| "toString (Some s) = s"

definition makeSimpleNodeFactory :: "string option \<Rightarrow> string option \<Rightarrow> nodeFactory" where
  "makeSimpleNodeFactory opt_nodeName opt_namespaceURI = (\<lambda>this value opt_nodeName' st.
     let fixedNodeName = opt_nodeName; context = stackTop st in
     case getNode context of
       Inl e \<Rightarrow> Inl (e, st)
     | Inr n \<Rightarrow>
         (let nodeName = (if fixedNodeName = None then opt_nodeName' else fixedNodeName) in
          case (if opt_namespaceURI = None then getNamespaceURI n else Inr opt_namespaceURI) of
            Inl e \<Rightarrow> Inl (e, st)
          | Inr ns \<Rightarrow>
              (case createElementNS ns (toString nodeName) st of
                 (created, st1) \<Rightarrow> Inr (Some created, st1))))"

definition OBJECT_PROPERTY_NODE_FACTORY :: nodeFactory where
  "OBJECT_PROPERTY_NODE_FACTORY = makeSimpleNodeFactory None None"

definition makeChildAppender :: "serializer \<Rightarrow> jsval \<Rightarrow> serializer" where
  "makeChildAppender nodeWriter opt_this = (\<lambda>this n value st.
     case nodeWriter (if opt_this \<noteq> Undefined then opt_this else this) n value st of
       Inl x \<Rightarrow> Inl x
     | Inr st1 \<Rightarrow>
         (let parent = stackTop st1 in
          case getNode parent of
            Inl e \<Rightarrow> Inl (e, st1)
          | Inr parentNode \<Rightarrow>
              (case parentNode of
                 NodeVal p \<Rightarrow> Inr (appendChild p n st1)
               | _ \<Rightarrow> Inl (TypeError, st1))))"

fun arrayLike :: "jsval \<Rightarrow> error + jsval list" where
  \<comment> \<open>what \<open>values.length\<close> and \<open>values[i]\<close> read when \<open>values\<close> is any value\<close>
  "arrayLike (Arr xs) = Inr xs"
| "arrayLike (Str s) = Inr (map (\<lambda>c. Str [c]) s)"
| "arrayLike Undefined = Inl TypeError"
| "arrayLike Null = Inl TypeError"
| "arrayLike (Obj object) = (if map_of object ''length'' = None then Inr [] else Inl Unmodelled)"
| "arrayLike (Builtin k) = Inl Unmodelled"
| "arrayLike _ = Inr []"

definition makeArraySerializer :: "serializer \<Rightarrow> jsval \<Rightarrow> nat \<Rightarrow> serializer" where
  \<comment> \<open>\<open>c\<close> names the closure: its variables \<open>serializersNS\<close> and \<open>nodeFactory\<close> are
      \<open>cells st c\<close>, \<open>None\<close> while they are \<open>undefined\<close>; both are determined by the
      namespace and local name of the node that set them\<close>
  "makeArraySerializer nodeWriter opt_this c = (\<lambda>this n value st.
     let st1 = (if cells st c = None
                then st\<lparr>cells := (cells st)(c \<mapsto> (elemNamespaceURI n, elemLocalName n))\<rparr>
                else st) in
     case cells st1 c of
       None \<Rightarrow> Inl (Unmodelled, st1)
     | Some (ns, name) \<Rightarrow>
         (let serializersNS = [propertyKey ns \<mapsto> [name \<mapsto> nodeWriter]];
              nodeFactory = makeSimpleNodeFactory (Some name) None in
          case arrayLike value of
            Inl e \<Rightarrow> Inl (e, st1)
          | Inr values \<Rightarrow> serialize serializersNS nodeFactory values None Undefined st1))"

section \<open>Sequences\<close>





section \<open>Functions used to state the theorems\<close>

text \<open>
  The handlers are parameters, so a statement that a handler is or is not invoked is an
  equation between two runs that holds for every handler.
\<close>

definition andThen :: "effect \<Rightarrow> (state \<Rightarrow> effect) \<Rightarrow> effect" where
  "andThen r f = (case r of Inl x \<Rightarrow> Inl x | Inr st \<Rightarrow> f st)"

definition finalState :: "effect \<Rightarrow> state" where
  \<comment> \<open>the state a call leaves, whether it returns or throws\<close>
  "finalState r = (case r of Inl (e, st) \<Rightarrow> st | Inr st \<Rightarrow> st)"



definition serializeValue :: "serializer table \<Rightarrow> nodeFactory \<Rightarrow> jsval \<Rightarrow> jsval \<Rightarrow> string option
    \<Rightarrow> state \<Rightarrow> effect" where
  \<comment> \<open>one value passed to the node factory and, when a node comes back, to the
      serializer of that node\<close>
  "serializeValue serializersNS nodeFactory opt_this value key st =
     (case nodeFactory opt_this value key st of
        Inl x \<Rightarrow> Inl x
      | Inr (None, st1) \<Rightarrow> Inr st1
      | Inr (Some n, st1) \<Rightarrow>
          (case getMember serializersNS (propertyKey (elemNamespaceURI n)) of
             Missing \<Rightarrow> Inl (TypeError, st1)
           | Inherited k \<Rightarrow> Inl (Unmodelled, st1)
           | Own serializers \<Rightarrow>
               (case getMember serializers (elemLocalName n) of
                  Missing \<Rightarrow> Inl (TypeError, st1)
                | Inherited k \<Rightarrow> callInherited k st1
                | Own s \<Rightarrow> s opt_this n value st1)))"

fun serializeEach :: "serializer table \<Rightarrow> nodeFactory \<Rightarrow> jsval \<Rightarrow> (jsval \<times> string option) list
    \<Rightarrow> state \<Rightarrow> effect" where
  "serializeEach serializersNS nodeFactory opt_this [] st = Inr st"
| "serializeEach serializersNS nodeFactory opt_this ((value, key) # rest) st =
     andThen (serializeValue serializersNS nodeFactory opt_this value key st)
       (serializeEach serializersNS nodeFactory opt_this rest)"

definition position :: "jsval list \<Rightarrow> string list option \<Rightarrow> nat \<Rightarrow> jsval \<times> string option" where
  "position values opt_keys i =
     (index values i, case opt_keys of Some keys \<Rightarrow> Some (keys ! i) | None \<Rightarrow> None)"

definition definedPositions :: "jsval list \<Rightarrow> string list option \<Rightarrow> (jsval \<times> string option) list" where
  "definedPositions values opt_keys =
     filter (\<lambda>(value, key). value \<noteq> Undefined)
       (map (position values opt_keys)
          [0 ..< (case opt_keys of Some keys \<Rightarrow> length keys | None \<Rightarrow> length values)])"



definition parentNamespace :: "state \<Rightarrow> string option option" where
  \<comment> \<open>the namespace of the node of the context frame at the top of the stack, when the
      top of the stack is such a frame\<close>
  "parentNamespace st =
     (case stackTop st of
        Obj object \<Rightarrow>
          (case map_of object ''node'' of
             Some (NodeVal p) \<Rightarrow> Some (elemNamespaceURI p)
           | _ \<Rightarrow> None)
      | _ \<Rightarrow> None)"

fun writeEach :: "serializer \<Rightarrow> string option \<Rightarrow> string \<Rightarrow> jsval list \<Rightarrow> state \<Rightarrow> effect" where
  \<comment> \<open>each value written by the node writer into an element created for it\<close>
  "writeEach nodeWriter ns name [] st = Inr st"
| "writeEach nodeWriter ns name (x # xs) st =
     (case createElementNS ns name st of
        (created, st1) \<Rightarrow>
          andThen (nodeWriter Undefined created x st1) (writeEach nodeWriter ns name xs))"

section \<open>Concrete inputs\<close>

definition st0 :: state where
  "st0 = \<lparr>objectStack = [Arr []], nextId = 0, children = (\<lambda>_. []), attributes = (\<lambda>_. []),
          cells = (\<lambda>_. None)\<rparr>"

definition reader12 :: valueReader where
  \<comment> \<open>reads \<open>[1, 2]\<close> from an element \<open>a\<close>, \<open>[3]\<close> from an element \<open>b\<close>, nothing elsewhere\<close>
  "reader12 this n st =
     (if localName n = ''a'' then Inr (Arr [Num 1, Num 2], st)
      else if localName n = ''b'' then Inr (Arr [Num 3], st)
      else Inr (Undefined, st))"

definition parsers12 :: "parser table" where
  "parsers12 = [''urn:x'' \<mapsto> [''a'' \<mapsto> makeArrayExtender reader12 Undefined,
                               ''b'' \<mapsto> makeArrayExtender reader12 Undefined]]"





definition rootElem :: elem where
  "rootElem = Elem 0 (Some ''urn:x'') ''root''"




definition itemFactory :: nodeFactory where
  "itemFactory = makeSimpleNodeFactory (Some ''item'') None"

definition writeTypeof :: serializer where
  \<comment> \<open>a node writer that records \<open>typeof value\<close> in the attribute \<open>kind\<close>\<close>
  "writeTypeof this n x st =
     Inr (setAttribute n ''kind''
       (case x of Undefined \<Rightarrow> ''undefined'' | Null \<Rightarrow> ''object'' | Bool b \<Rightarrow> ''boolean''
        | Num i \<Rightarrow> ''number'' | Str s \<Rightarrow> ''string'' | Arr xs \<Rightarrow> ''object''
        | Obj object \<Rightarrow> ''object'' | NodeVal e \<Rightarrow> ''object''
        | Builtin k \<Rightarrow> (if k = ''__proto__'' then ''object'' else ''function'')) st)"

definition typeofSerializers :: "serializer table" where
  "typeofSerializers = [''urn:x'' \<mapsto> [''item'' \<mapsto> makeChildAppender writeTypeof Undefined,
                                        ''a'' \<mapsto> makeChildAppender writeTypeof Undefined,
                                        ''b'' \<mapsto> makeChildAppender writeTypeof Undefined,
                                        ''c'' \<mapsto> makeChildAppender writeTypeof Undefined]]"

definition stRoot :: state where
  \<comment> \<open>the element \<open>rootElem\<close> created, and a context frame that holds it on the stack\<close>
  "stRoot = \<lparr>objectStack = [Obj [(''node'', NodeVal rootElem)]], nextId = 1, children = (\<lambda>_. []),
             attributes = (\<lambda>_. []), cells = (\<lambda>_. None)\<rparr>"

definition arrayItems :: serializer where
  \<comment> \<open>one serializer made by \<open>makeArraySerializer\<close>, with the closure variables in cell 0\<close>
  "arrayItems = makeArraySerializer (makeChildAppender writeTypeof Undefined) Undefined 0"

definition stAfterFirst :: state where
  \<comment> \<open>the state after \<open>arrayItems\<close> has served a node \<open>item\<close> of the namespace \<open>urn:x\<close>\<close>
  "stAfterFirst =
     finalState (arrayItems Undefined (Elem 7 (Some ''urn:x'') ''item'') (Arr [Str ''p'']) stRoot)"

section \<open>The object stack\<close>

lemma stackTop_setTop: "objectStack st \<noteq> [] \<Longrightarrow> stackTop (setTop v st) = v"
  by (cases "objectStack st" rule: rev_cases) (auto simp: stackTop_def setTop_def)

lemma stackTop_Arr_nonempty: "stackTop st = Arr xs \<Longrightarrow> objectStack st \<noteq> []"
  by (auto simp: stackTop_def)


lemma objectStack_setTop:
  "objectStack st \<noteq> [] \<Longrightarrow> objectStack (setTop v st) = butlast (objectStack st) @ [v]"
  by (cases "objectStack st" rule: rev_cases) (auto simp: setTop_def)




lemma depth_pop: "depth (snd (pop st)) = depth st - 1"
  by (simp add: pop_def depth_def)

section \<open>Read direction: dispatch\<close>

lemma getMember_Own: "t key = Some h \<Longrightarrow> getMember t key = Own h"
  by (simp add: getMember_def)

lemma getMember_OwnD: "getMember t key = Own h \<Longrightarrow> t key = Some h"
  by (auto simp: getMember_def split: option.splits if_splits)

lemma getMember_Missing:
  "t key = None \<Longrightarrow> key \<notin> set objectPrototypeNames \<Longrightarrow> getMember t key = Missing"
  by (simp add: getMember_def)

lemma getMember_Inherited:
  "t key = None \<Longrightarrow> key \<in> set objectPrototypeNames \<Longrightarrow> getMember t key = Inherited key"
  by (simp add: getMember_def)



lemma callInherited_final: "finalState (callInherited k st) = st"
  by (simp add: callInherited_def finalState_def)

lemma parseChildren_append:
  "parseChildren P (xs @ ys) this st =
     (case parseChildren P xs this st of Inl x \<Rightarrow> Inl x | Inr st1 \<Rightarrow> parseChildren P ys this st1)"
  by (induction xs arbitrary: st) (auto split: member.splits sum.splits)

lemma parseChildren_unmapped:
  assumes "(P (propertyKey (namespaceURI c)) = None
              \<and> propertyKey (namespaceURI c) \<notin> set objectPrototypeNames)
         \<or> (\<exists>parsers. P (propertyKey (namespaceURI c)) = Some parsers
              \<and> parsers (localName c) = None \<and> localName c \<notin> set objectPrototypeNames)"
  shows "parseChildren P (c # rest) this st = parseChildren P rest this st"
  using assms by (auto simp: getMember_def)

lemma parseNode_unmapped:
  assumes "nodeType c = ELEMENT_NODE"
    and "(P (propertyKey (namespaceURI c)) = None
              \<and> propertyKey (namespaceURI c) \<notin> set objectPrototypeNames)
         \<or> (\<exists>parsers. P (propertyKey (namespaceURI c)) = Some parsers
              \<and> parsers (localName c) = None \<and> localName c \<notin> set objectPrototypeNames)"
  shows "parseNode P (Node t ns nm v (before @ c # after)) this st =
           parseNode P (Node t ns nm v (before @ after)) this st"
proof -
  have skip: "parseChildren P (c # rest) this s = parseChildren P rest this s" for rest s
    using assms(2) by (rule parseChildren_unmapped)
  show ?thesis
    using assms(1)
    by (simp add: parseNode_def elementChildren_def parseChildren_append skip
        del: parseChildren.simps(2) split: sum.splits)
qed




section \<open>Read direction: combinators\<close>

text \<open>
  C5. When its value reader returns an array, the parser made by \<open>makeArrayExtender\<close>
  replaces the array at the top of the object stack by that array followed by the
  elements read, in their order, and leaves the slots below as they are; when the
  reader returns \<open>undefined\<close>, the state is the one the reader left. The witness runs
  the readings \<open>[1, 2]\<close> and then \<open>[3]\<close> on an empty array and gets \<open>[1, 2, 3]\<close>.
\<close>

theorem makeArrayExtender_concatenates:
  "(valueReader opt_this n st = Inr (Arr data, st1) \<and> stackTop st1 = Arr arr \<longrightarrow>
      makeArrayExtender valueReader opt_this this n st = Inr (setTop (Arr (arr @ data)) st1)
      \<and> stackTop (setTop (Arr (arr @ data)) st1) = Arr (arr @ data)
      \<and> objectStack (setTop (Arr (arr @ data)) st1) = butlast (objectStack st1) @ [Arr (arr @ data)])
   \<and> (valueReader opt_this n st = Inr (Undefined, st1) \<longrightarrow>
      makeArrayExtender valueReader opt_this this n st = Inr st1)"
  by (auto simp: makeArrayExtender_def stackTop_setTop objectStack_setTop
      dest: stackTop_Arr_nonempty)

theorem makeArrayExtender_concatenates_witness:
  "makeArrayExtender reader12 Undefined Undefined (Node 1 None ''a'' [] []) st0
     = Inr (st0\<lparr>objectStack := [Arr [Num 1, Num 2]]\<rparr>)
   \<and> makeArrayExtender reader12 Undefined Undefined (Node 1 None ''b'' [] [])
       (st0\<lparr>objectStack := [Arr [Num 1, Num 2]]\<rparr>)
     = Inr (st0\<lparr>objectStack := [Arr [Num 1, Num 2, Num 3]]\<rparr>)
   \<and> makeArrayExtender reader12 Undefined Undefined (Node 1 None ''c'' [] [])
       (st0\<lparr>objectStack := [Arr [Num 1, Num 2, Num 3]]\<rparr>)
     = Inr (st0\<lparr>objectStack := [Arr [Num 1, Num 2, Num 3]]\<rparr>)"
  using makeArrayExtender_concatenates [of reader12 Undefined "Node 1 None ''a'' [] []" st0
          "[Num 1, Num 2]" st0 "[]" Undefined]
        makeArrayExtender_concatenates [of reader12 Undefined "Node 1 None ''b'' [] []"
          "st0\<lparr>objectStack := [Arr [Num 1, Num 2]]\<rparr>"
          "[Num 3]" "st0\<lparr>objectStack := [Arr [Num 1, Num 2]]\<rparr>" "[Num 1, Num 2]" Undefined]
        makeArrayExtender_concatenates [of reader12 Undefined "Node 1 None ''c'' [] []"
          "st0\<lparr>objectStack := [Arr [Num 1, Num 2, Num 3]]\<rparr>" "[]"
          "st0\<lparr>objectStack := [Arr [Num 1, Num 2, Num 3]]\<rparr>" "[]" Undefined]
  by (simp add: reader12_def st0_def stackTop_def setTop_def)








section \<open>Write direction: the loop\<close>

lemma serializeLoop_step:
  "serializeLoop S F values opt_keys this len i st =
     (if i < len then
        (if index values i \<noteq> Undefined
         then andThen (serializeValue S F this (index values i)
                 (case opt_keys of Some keys \<Rightarrow> Some (keys ! i) | None \<Rightarrow> None) st)
                (serializeLoop S F values opt_keys this len (Suc i))
         else serializeLoop S F values opt_keys this len (Suc i) st)
      else Inr st)"
  by (subst serializeLoop.simps)
     (auto simp: andThen_def serializeValue_def Let_def
           split: sum.splits option.splits prod.splits member.splits)

lemma serializeLoop_serializeEach:
  "serializeLoop S F values opt_keys this len i st =
     serializeEach S F this
       (filter (\<lambda>(x, key). x \<noteq> Undefined) (map (position values opt_keys) [i ..< len])) st"
proof (induction "len - i" arbitrary: i st)
  case 0
  then show ?case by (subst serializeLoop_step) simp
next
  case (Suc d)
  then have lt: "i < len" and d: "d = len - Suc i" by auto
  have "serializeLoop S F values opt_keys this len (Suc i) s =
     serializeEach S F this
       (filter (\<lambda>(x, key). x \<noteq> Undefined) (map (position values opt_keys) [Suc i ..< len])) s" for s
    using Suc.hyps(1) [OF d] .
  then have rest: "serializeLoop S F values opt_keys this len (Suc i) =
     serializeEach S F this
       (filter (\<lambda>(x, key). x \<noteq> Undefined) (map (position values opt_keys) [Suc i ..< len]))"
    by (rule ext)
  show ?case
    using lt by (subst serializeLoop_step) (simp add: upt_conv_Cons position_def rest)
qed

lemma serialize_serializeEach:
  "serialize S F values opt_keys this st = serializeEach S F this (definedPositions values opt_keys) st"
  by (simp add: serialize_def definedPositions_def serializeLoop_serializeEach)

section \<open>Stack balance\<close>


lemma finalState_andThen:
  "finalState (andThen r f) = (case r of Inl x \<Rightarrow> finalState r | Inr s \<Rightarrow> finalState (f s))"
  by (simp add: andThen_def finalState_def split: sum.splits)










lemma push_dispatch_throws:
  "parseNode parsersNS n opt_this (push object st) = Inl (e, s) \<Longrightarrow>
     pushParseAndPop object parsersNS n opt_this st = Inl (e, s)"
  "serialize serializersNS nodeFactory xs opt_keys opt_this (push object st) = Inl (e, s) \<Longrightarrow>
     pushSerializeAndPop object serializersNS nodeFactory xs opt_keys opt_this st = Inl (e, s)"
  by (simp_all add: pushParseAndPop_def pushSerializeAndPop_def)


















section \<open>Write direction: values and positions\<close>

lemma serializeEach_append:
  "serializeEach S F this (xs @ ys) st =
     andThen (serializeEach S F this xs st) (serializeEach S F this ys)"
  by (induction xs arbitrary: st) (auto simp: andThen_def split: sum.splits)

lemma positions_None: "map (position xs None) [0 ..< length xs] = map (\<lambda>x. (x, None)) xs"
  by (rule nth_equalityI) (simp_all add: position_def index_def)

lemma definedPositions_None:
  "definedPositions xs None = map (\<lambda>x. (x, None)) (filter (\<lambda>x. x \<noteq> Undefined) xs)"
  by (simp add: definedPositions_def positions_None filter_map comp_def)


lemma serialize_Cons:
  "serialize S F (x # xs) None this st =
     (if x = Undefined then serialize S F xs None this st
      else andThen (serializeValue S F this x None st) (serialize S F xs None this))"
proof -
  have "serialize S F xs None this = serializeEach S F this (definedPositions xs None)"
    by (rule ext) (simp add: serialize_serializeEach)
  then show ?thesis
    by (simp add: serialize_serializeEach definedPositions_None)
qed





lemmas write_eval = serialize_serializeEach definedPositions_def position_def index_def
  eval_nat_numeral andThen_def serializeValue_def getMember_def objectPrototypeNames_def
  callInherited_def itemFactory_def
  makeSimpleNodeFactory_def createElementNS_def makeChildAppender_def
  setAttribute_def appendChild_def rootElem_def stackTop_def Let_def


section \<open>Sequences\<close>








section \<open>Write direction: a node without a serializer\<close>

lemma serializeValue_unmapped:
  assumes "F this x key st = Inr (Some n, st1)"
    and "(S (propertyKey (elemNamespaceURI n)) = None
            \<and> propertyKey (elemNamespaceURI n) \<notin> set objectPrototypeNames)
         \<or> (\<exists>serializers. S (propertyKey (elemNamespaceURI n)) = Some serializers
               \<and> serializers (elemLocalName n) = None
               \<and> elemLocalName n \<notin> set objectPrototypeNames)"
  shows "serializeValue S F this x key st = Inl (TypeError, st1)"
  using assms by (auto simp: serializeValue_def getMember_def)

lemma serializeValue_no_node:
  "F this x key st = Inr (None, st1) \<Longrightarrow> serializeValue S F this x key st = Inr st1"
  by (simp add: serializeValue_def)

lemma serializeLoop_split:
  assumes "i \<le> j" and "j \<le> len"
  shows "serializeLoop S F xs opt_keys this len i st =
           andThen (serializeLoop S F xs opt_keys this j i st) (serializeLoop S F xs opt_keys this len j)"
proof -
  have r: "[i ..< len] = [i ..< j] @ [j ..< len]"
    using assms by (metis le_Suc_ex upt_add_eq_append)
  have "serializeLoop S F xs opt_keys this len j =
      serializeEach S F this
        (filter (\<lambda>(x, key). x \<noteq> Undefined) (map (position xs opt_keys) [j ..< len]))"
    by (rule ext) (rule serializeLoop_serializeEach)
  then show ?thesis
    by (simp only: serializeLoop_serializeEach r map_append filter_append serializeEach_append)
qed

lemma serialize_at:
  assumes "i < (case opt_keys of Some keys \<Rightarrow> length keys | None \<Rightarrow> length xs)"
    and "serializeLoop S F xs opt_keys this i 0 st = Inr st1"
    and "index xs i \<noteq> Undefined"
  shows "serialize S F xs opt_keys this st =
     andThen (serializeValue S F this (index xs i)
                (case opt_keys of Some keys \<Rightarrow> Some (keys ! i) | None \<Rightarrow> None) st1)
       (serializeLoop S F xs opt_keys this
          (case opt_keys of Some keys \<Rightarrow> length keys | None \<Rightarrow> length xs) (Suc i))"
proof -
  let ?len = "case opt_keys of Some keys \<Rightarrow> length keys | None \<Rightarrow> length xs"
  have "serialize S F xs opt_keys this st =
      andThen (serializeLoop S F xs opt_keys this i 0 st) (serializeLoop S F xs opt_keys this ?len i)"
    unfolding serialize_def using assms(1) by (intro serializeLoop_split) simp_all
  also have "\<dots> = serializeLoop S F xs opt_keys this ?len i st1"
    by (simp add: assms(2) andThen_def)
  also have "\<dots> = andThen (serializeValue S F this (index xs i)
                (case opt_keys of Some keys \<Rightarrow> Some (keys ! i) | None \<Rightarrow> None) st1)
       (serializeLoop S F xs opt_keys this ?len (Suc i))"
    using assms(1,3) by (subst serializeLoop_step) simp
  finally show ?thesis .
qed

text \<open>
  C3, the claim as stated fails: a node factory that returns a node of a namespace, or
  of a local name, that has no entry in the serializer table makes \<open>serialize\<close> throw a
  TypeError (\<open>serializersNS[node.namespaceURI][node.localName].call\<close> is not guarded),
  and the values after it are not reached.
\<close>

theorem serialize_unmapped_counterexample:
  "serialize typeofSerializers (makeSimpleNodeFactory (Some ''unknown'') None)
      [Str ''p'', Str ''q''] None Undefined stRoot
     = Inl (TypeError, stRoot\<lparr>nextId := 2\<rparr>)
   \<and> serialize typeofSerializers (makeSimpleNodeFactory (Some ''item'') (Some ''urn:y''))
      [Str ''p'', Str ''q''] None Undefined stRoot
     = Inl (TypeError, stRoot\<lparr>nextId := 2\<rparr>)"
  by (simp add: write_eval typeofSerializers_def stRoot_def)

text \<open>
  C3, amended. An unmapped pair is a silent no-op in the read direction only, and there
  when the name that has no entry is not the name of a property of \<open>Object.prototype\<close>:
  the run of \<open>parseNode\<close> is the run without the unmapped child. In the write direction,
  with keys or without, at a position \<open>i\<close> that the loop reaches in the state \<open>st1\<close> with a
  value other than \<open>undefined\<close>: when the node factory returns a node whose namespace, or
  whose local name in the table of its namespace, has no entry in the serializer table
  and is not the name of a property of \<open>Object.prototype\<close>, \<open>serialize\<close> throws a
  TypeError in the state the node factory left, without invoking a serializer for that
  value and without reaching the positions after it; when the node factory returns
  \<open>undefined\<close>, the value is omitted without an error and the loop goes on at the
  position \<open>i + 1\<close>.
\<close>

theorem unmapped_pair_read_silent_write_raises:
  "(nodeType c = ELEMENT_NODE
      \<and> ((parsersNS (propertyKey (namespaceURI c)) = None
             \<and> propertyKey (namespaceURI c) \<notin> set objectPrototypeNames)
           \<or> (\<exists>parsers. parsersNS (propertyKey (namespaceURI c)) = Some parsers
                 \<and> parsers (localName c) = None \<and> localName c \<notin> set objectPrototypeNames))
    \<longrightarrow> parseNode parsersNS (Node t ns nm v (before @ c # after)) opt_this st =
          parseNode parsersNS (Node t ns nm v (before @ after)) opt_this st)
   \<and> (i < (case opt_keys of Some keys \<Rightarrow> length keys | None \<Rightarrow> length xs)
        \<and> serializeLoop S F xs opt_keys this i 0 st = Inr st1
        \<and> index xs i \<noteq> Undefined
        \<and> F this (index xs i) (case opt_keys of Some keys \<Rightarrow> Some (keys ! i) | None \<Rightarrow> None) st1
            = Inr (Some n, st2)
        \<and> ((S (propertyKey (elemNamespaceURI n)) = None
               \<and> propertyKey (elemNamespaceURI n) \<notin> set objectPrototypeNames)
             \<or> (\<exists>serializers. S (propertyKey (elemNamespaceURI n)) = Some serializers
                   \<and> serializers (elemLocalName n) = None
                   \<and> elemLocalName n \<notin> set objectPrototypeNames))
    \<longrightarrow> serialize S F xs opt_keys this st = Inl (TypeError, st2))
   \<and> (i < (case opt_keys of Some keys \<Rightarrow> length keys | None \<Rightarrow> length xs)
        \<and> serializeLoop S F xs opt_keys this i 0 st = Inr st1
        \<and> index xs i \<noteq> Undefined
        \<and> F this (index xs i) (case opt_keys of Some keys \<Rightarrow> Some (keys ! i) | None \<Rightarrow> None) st1
            = Inr (None, st2)
    \<longrightarrow> serialize S F xs opt_keys this st =
          serializeLoop S F xs opt_keys this
            (case opt_keys of Some keys \<Rightarrow> length keys | None \<Rightarrow> length xs) (Suc i) st2)"
proof (intro conjI impI)
  assume "nodeType c = ELEMENT_NODE
      \<and> ((parsersNS (propertyKey (namespaceURI c)) = None
             \<and> propertyKey (namespaceURI c) \<notin> set objectPrototypeNames)
           \<or> (\<exists>parsers. parsersNS (propertyKey (namespaceURI c)) = Some parsers
                 \<and> parsers (localName c) = None \<and> localName c \<notin> set objectPrototypeNames))"
  then show "parseNode parsersNS (Node t ns nm v (before @ c # after)) opt_this st =
          parseNode parsersNS (Node t ns nm v (before @ after)) opt_this st"
    by (intro parseNode_unmapped) auto
next
  assume a: "i < (case opt_keys of Some keys \<Rightarrow> length keys | None \<Rightarrow> length xs)
        \<and> serializeLoop S F xs opt_keys this i 0 st = Inr st1
        \<and> index xs i \<noteq> Undefined
        \<and> F this (index xs i) (case opt_keys of Some keys \<Rightarrow> Some (keys ! i) | None \<Rightarrow> None) st1
            = Inr (Some n, st2)
        \<and> ((S (propertyKey (elemNamespaceURI n)) = None
               \<and> propertyKey (elemNamespaceURI n) \<notin> set objectPrototypeNames)
             \<or> (\<exists>serializers. S (propertyKey (elemNamespaceURI n)) = Some serializers
                   \<and> serializers (elemLocalName n) = None
                   \<and> elemLocalName n \<notin> set objectPrototypeNames))"
  then have "serializeValue S F this (index xs i)
      (case opt_keys of Some keys \<Rightarrow> Some (keys ! i) | None \<Rightarrow> None) st1 = Inl (TypeError, st2)"
    by (intro serializeValue_unmapped) blast+
  moreover have "serialize S F xs opt_keys this st =
     andThen (serializeValue S F this (index xs i)
                (case opt_keys of Some keys \<Rightarrow> Some (keys ! i) | None \<Rightarrow> None) st1)
       (serializeLoop S F xs opt_keys this
          (case opt_keys of Some keys \<Rightarrow> length keys | None \<Rightarrow> length xs) (Suc i))"
    using a by (intro serialize_at) blast+
  ultimately show "serialize S F xs opt_keys this st = Inl (TypeError, st2)"
    by (simp add: andThen_def)
next
  assume a: "i < (case opt_keys of Some keys \<Rightarrow> length keys | None \<Rightarrow> length xs)
        \<and> serializeLoop S F xs opt_keys this i 0 st = Inr st1
        \<and> index xs i \<noteq> Undefined
        \<and> F this (index xs i) (case opt_keys of Some keys \<Rightarrow> Some (keys ! i) | None \<Rightarrow> None) st1
            = Inr (None, st2)"
  then have "serializeValue S F this (index xs i)
      (case opt_keys of Some keys \<Rightarrow> Some (keys ! i) | None \<Rightarrow> None) st1 = Inr st2"
    by (intro serializeValue_no_node) blast
  moreover have "serialize S F xs opt_keys this st =
     andThen (serializeValue S F this (index xs i)
                (case opt_keys of Some keys \<Rightarrow> Some (keys ! i) | None \<Rightarrow> None) st1)
       (serializeLoop S F xs opt_keys this
          (case opt_keys of Some keys \<Rightarrow> length keys | None \<Rightarrow> length xs) (Suc i))"
    using a by (intro serialize_at) blast+
  ultimately show "serialize S F xs opt_keys this st =
          serializeLoop S F xs opt_keys this
            (case opt_keys of Some keys \<Rightarrow> length keys | None \<Rightarrow> length xs) (Suc i) st2"
    by (simp add: andThen_def)
qed

theorem unmapped_pair_read_silent_write_raises_witness:
  "serialize typeofSerializers OBJECT_PROPERTY_NODE_FACTORY
      [Undefined, Str ''p'', Str ''q''] (Some [''a'', ''zz'', ''b'']) Undefined stRoot
     = Inl (TypeError, stRoot\<lparr>nextId := 2\<rparr>)
   \<and> serialize typeofSerializers (makeSimpleNodeFactory (Some ''item'') (Some ''urn:none''))
      [Str ''p'', Str ''q''] None Undefined stRoot
     = Inl (TypeError, stRoot\<lparr>nextId := 2\<rparr>)
   \<and> serialize typeofSerializers (\<lambda>this x key st. Inr (None, st))
      [Undefined, Str ''p'', Str ''q''] (Some [''a'', ''zz'', ''b'']) Undefined stRoot
     = serializeLoop typeofSerializers (\<lambda>this x key st. Inr (None, st))
         [Undefined, Str ''p'', Str ''q''] (Some [''a'', ''zz'', ''b'']) Undefined 3 2 stRoot
   \<and> parseNode parsers12 (Node 1 None ''root'' [] ([] @ Node 1 None ''a'' [] [] # [])) Undefined st0
     = parseNode parsers12 (Node 1 None ''root'' [] ([] @ [])) Undefined st0"
proof -
  note amended = unmapped_pair_read_silent_write_raises
  have skipped: "serializeLoop S F [Undefined, Str ''p'', Str ''q''] ks Undefined 1 0 stRoot
      = Inr stRoot" for S F ks
    by (simp add: serializeLoop_serializeEach position_def index_def)
  have none: "serializeLoop S F [Str ''p'', Str ''q''] ks Undefined 0 0 stRoot = Inr stRoot"
    for S F ks
    by (simp add: serializeLoop_serializeEach)
  have f: "OBJECT_PROPERTY_NODE_FACTORY Undefined (Str ''p'') (Some ''zz'') stRoot
      = Inr (Some (Elem 1 (Some ''urn:x'') ''zz''), stRoot\<lparr>nextId := 2\<rparr>)"
    by (simp add: OBJECT_PROPERTY_NODE_FACTORY_def makeSimpleNodeFactory_def createElementNS_def
        stRoot_def stackTop_def rootElem_def)
  have g: "makeSimpleNodeFactory (Some ''item'') (Some ''urn:none'') Undefined (Str ''p'') None stRoot
      = Inr (Some (Elem 1 (Some ''urn:none'') ''item''), stRoot\<lparr>nextId := 2\<rparr>)"
    by (simp add: makeSimpleNodeFactory_def createElementNS_def stRoot_def stackTop_def)
  have missName: "\<exists>serializers. typeofSerializers ''urn:x'' = Some serializers
      \<and> serializers ''zz'' = None \<and> ''zz'' \<notin> set objectPrototypeNames"
    by (simp add: typeofSerializers_def objectPrototypeNames_def)
  have missNS: "typeofSerializers ''urn:none'' = None \<and> ''urn:none'' \<notin> set objectPrototypeNames"
    by (simp add: typeofSerializers_def objectPrototypeNames_def)
  have one: "serialize typeofSerializers OBJECT_PROPERTY_NODE_FACTORY
      [Undefined, Str ''p'', Str ''q''] (Some [''a'', ''zz'', ''b'']) Undefined stRoot
     = Inl (TypeError, stRoot\<lparr>nextId := 2\<rparr>)"
    using amended [where S = typeofSerializers and F = OBJECT_PROPERTY_NODE_FACTORY
        and xs = "[Undefined, Str ''p'', Str ''q'']" and opt_keys = "Some [''a'', ''zz'', ''b'']"
        and i = 1 and this = Undefined and st = stRoot and ?st1.0 = stRoot
        and n = "Elem 1 (Some ''urn:x'') ''zz''" and ?st2.0 = "stRoot\<lparr>nextId := 2\<rparr>",
        THEN conjunct2, THEN conjunct1] skipped f missName
    by (simp add: index_def)
  have two: "serialize typeofSerializers (makeSimpleNodeFactory (Some ''item'') (Some ''urn:none''))
      [Str ''p'', Str ''q''] None Undefined stRoot = Inl (TypeError, stRoot\<lparr>nextId := 2\<rparr>)"
    using amended [where S = typeofSerializers
        and F = "makeSimpleNodeFactory (Some ''item'') (Some ''urn:none'')"
        and xs = "[Str ''p'', Str ''q'']" and opt_keys = None
        and i = 0 and this = Undefined and st = stRoot and ?st1.0 = stRoot
        and n = "Elem 1 (Some ''urn:none'') ''item''" and ?st2.0 = "stRoot\<lparr>nextId := 2\<rparr>",
        THEN conjunct2, THEN conjunct1] none g missNS
    by (simp add: index_def)
  have three: "serialize typeofSerializers (\<lambda>this x key st. Inr (None, st))
      [Undefined, Str ''p'', Str ''q''] (Some [''a'', ''zz'', ''b'']) Undefined stRoot
     = serializeLoop typeofSerializers (\<lambda>this x key st. Inr (None, st))
         [Undefined, Str ''p'', Str ''q''] (Some [''a'', ''zz'', ''b'']) Undefined 3 2 stRoot"
    using amended [where S = typeofSerializers and F = "\<lambda>this x key st. Inr (None, st)"
        and xs = "[Undefined, Str ''p'', Str ''q'']" and opt_keys = "Some [''a'', ''zz'', ''b'']"
        and i = 1 and this = Undefined and st = stRoot and ?st1.0 = stRoot
        and ?st2.0 = stRoot, THEN conjunct2, THEN conjunct2] skipped
    by (simp add: index_def eval_nat_numeral)
  have four: "parseNode parsers12 (Node 1 None ''root'' [] ([] @ Node 1 None ''a'' [] [] # [])) Undefined st0
     = parseNode parsers12 (Node 1 None ''root'' [] ([] @ [])) Undefined st0"
    using amended [where c = "Node 1 None ''a'' [] []" and parsersNS = parsers12 and t = 1
        and ns = None and nm = "''root''" and v = "[]" and before = "[]" and after = "[]"
        and opt_this = Undefined and st = st0, THEN conjunct1]
    by (simp add: ELEMENT_NODE_def parsers12_def objectPrototypeNames_def)
  from one two three four show ?thesis by (intro conjI)
qed

section \<open>The serializer for arrays\<close>

lemma makeArraySerializer_first:
  "cells st c = None \<Longrightarrow>
   makeArraySerializer W opt_this c this n x st =
     (case arrayLike x of
        Inl e \<Rightarrow> Inl (e, st\<lparr>cells := (cells st)(c \<mapsto> (elemNamespaceURI n, elemLocalName n))\<rparr>)
      | Inr xs \<Rightarrow>
          serialize [propertyKey (elemNamespaceURI n) \<mapsto> [elemLocalName n \<mapsto> W]]
            (makeSimpleNodeFactory (Some (elemLocalName n)) None) xs None Undefined
            (st\<lparr>cells := (cells st)(c \<mapsto> (elemNamespaceURI n, elemLocalName n))\<rparr>))"
  by (simp add: makeArraySerializer_def Let_def)

lemma makeArraySerializer_cached:
  "cells st c = Some (ns0, name0) \<Longrightarrow>
   makeArraySerializer W opt_this c this n x st =
     (case arrayLike x of
        Inl e \<Rightarrow> Inl (e, st)
      | Inr xs \<Rightarrow>
          serialize [propertyKey ns0 \<mapsto> [name0 \<mapsto> W]]
            (makeSimpleNodeFactory (Some name0) None) xs None Undefined st)"
  by (simp add: makeArraySerializer_def Let_def)

lemma makeSimpleNodeFactory_cells:
  "makeSimpleNodeFactory a b this x key st = Inl (e, s') \<Longrightarrow> s' = st"
  "makeSimpleNodeFactory a b this x key st = Inr (r, s') \<Longrightarrow> cells s' = cells st"
  by (auto simp: makeSimpleNodeFactory_def createElementNS_def Let_def split: sum.splits if_splits)

lemma serializeValue_keeps_cell:
  assumes "\<forall>this e x s. cells s c \<noteq> None \<longrightarrow> cells (finalState (W this e x s)) c = cells s c"
    and "cells st c \<noteq> None"
    and "\<And>ns' nm' w. lookupNS S ns' nm' = Some w \<Longrightarrow> w = W"
  shows "cells (finalState (serializeValue S (makeSimpleNodeFactory a b) this x key st)) c
           = cells st c"
proof (cases "makeSimpleNodeFactory a b this x key st")
  case (Inl err)
  then show ?thesis
    by (cases err) (auto simp: serializeValue_def finalState_def dest: makeSimpleNodeFactory_cells)
next
  case (Inr r)
  obtain created s1 where r: "r = (created, s1)" by (cases r)
  have s1: "cells s1 = cells st" using Inr r by (auto dest: makeSimpleNodeFactory_cells)
  show ?thesis
  proof (cases created)
    case None
    with Inr r s1 show ?thesis by (simp add: serializeValue_def finalState_def)
  next
    case (Some n)
    show ?thesis
    proof (cases "getMember S (propertyKey (elemNamespaceURI n))")
      case (Own serializers)
      show ?thesis
      proof (cases "getMember serializers (elemLocalName n)")
        case (Own w)
        have "lookupNS S (elemNamespaceURI n) (elemLocalName n) = Some w"
          using getMember_OwnD [OF \<open>getMember S (propertyKey (elemNamespaceURI n)) = Own serializers\<close>]
            getMember_OwnD [OF Own]
          by (simp add: lookupNS_def)
        then have "w = W" by (rule assms(3))
        with Inr r s1 Some Own \<open>getMember S (propertyKey (elemNamespaceURI n)) = Own serializers\<close>
          assms(1,2)
        show ?thesis by (simp add: serializeValue_def)
      next
        case (Inherited k)
        with Inr r s1 Some \<open>getMember S (propertyKey (elemNamespaceURI n)) = Own serializers\<close>
        show ?thesis by (simp add: serializeValue_def callInherited_final)
      next
        case Missing
        with Inr r s1 Some \<open>getMember S (propertyKey (elemNamespaceURI n)) = Own serializers\<close>
        show ?thesis by (simp add: serializeValue_def finalState_def)
      qed
    next
      case (Inherited k)
      with Inr r s1 Some show ?thesis by (simp add: serializeValue_def finalState_def)
    next
      case Missing
      with Inr r s1 Some show ?thesis by (simp add: serializeValue_def finalState_def)
    qed
  qed
qed

lemma serializeEach_keeps_cell:
  assumes "\<forall>this e x s. cells s c \<noteq> None \<longrightarrow> cells (finalState (W this e x s)) c = cells s c"
    and "cells st c \<noteq> None"
    and "\<And>ns' nm' w. lookupNS S ns' nm' = Some w \<Longrightarrow> w = W"
  shows "cells (finalState (serializeEach S (makeSimpleNodeFactory a b) this items st)) c
           = cells st c"
  using assms(2)
proof (induction items arbitrary: st)
  case Nil
  then show ?case by (simp add: finalState_def)
next
  case (Cons item items)
  obtain x key where item: "item = (x, key)" by (cases item)
  let ?r = "serializeValue S (makeSimpleNodeFactory a b) this x key st"
  have keep: "cells (finalState ?r) c = cells st c"
    using assms(1) Cons.prems assms(3) by (rule serializeValue_keeps_cell)
  show ?case
  proof (cases ?r)
    case (Inl err)
    with keep show ?thesis by (simp add: item finalState_andThen)
  next
    case (Inr s1)
    with keep have s1: "cells s1 c = cells st c" by (simp add: finalState_def)
    with Cons.prems have "cells s1 c \<noteq> None" by simp
    from Cons.IH [OF this] Inr s1 show ?thesis by (simp add: item finalState_andThen)
  qed
qed

lemma lookupNS_single:
  "lookupNS [k \<mapsto> [nm \<mapsto> W]] ns' nm' = Some w \<Longrightarrow> w = W"
  by (auto simp: lookupNS_def split: if_splits option.splits)

lemma makeArraySerializer_keeps_cell:
  assumes "\<forall>this e x s. cells s c \<noteq> None \<longrightarrow> cells (finalState (W this e x s)) c = cells s c"
    and "cells st c = Some (ns0, name0)"
  shows "cells (finalState (makeArraySerializer W opt_this c this n x st)) c = Some (ns0, name0)"
proof (cases "arrayLike x")
  case (Inl e)
  with assms(2) show ?thesis by (simp add: makeArraySerializer_cached finalState_def)
next
  case (Inr xs)
  have "cells st c \<noteq> None" using assms(2) by simp
  from serializeEach_keeps_cell [OF assms(1) this lookupNS_single] assms(2) Inr show ?thesis
    by (simp add: makeArraySerializer_cached serialize_serializeEach)
qed

section \<open>The serializer for arrays: the elements written\<close>

lemma parentNamespace_nextId [simp]: "parentNamespace (st\<lparr>nextId := k\<rparr>) = parentNamespace st"
  by (simp add: parentNamespace_def stackTop_def)

lemma parentNamespace_cells [simp]: "parentNamespace (st\<lparr>cells := k\<rparr>) = parentNamespace st"
  by (simp add: parentNamespace_def stackTop_def)

lemma factory_in_context:
  "parentNamespace st = Some ns \<Longrightarrow>
   makeSimpleNodeFactory (Some name) None this x key st =
     Inr (Some (fst (createElementNS ns name st)), snd (createElementNS ns name st))"
  by (auto simp: makeSimpleNodeFactory_def parentNamespace_def createElementNS_def Let_def
      split: jsval.splits option.splits)

lemma serializeValue_in_context:
  "parentNamespace st = Some ns \<Longrightarrow>
   serializeValue [propertyKey ns \<mapsto> [name \<mapsto> W]] (makeSimpleNodeFactory (Some name) None)
       Undefined x None st =
     (case createElementNS ns name st of (created, st1) \<Rightarrow> W Undefined created x st1)"
  by (simp add: serializeValue_def factory_in_context getMember_def createElementNS_def)

lemma serialize_writeEach:
  assumes "\<forall>e x s s'. parentNamespace s = Some ns \<longrightarrow> W Undefined e x s = Inr s' \<longrightarrow>
             parentNamespace s' = Some ns"
    and "parentNamespace st = Some ns"
    and "Undefined \<notin> set xs"
  shows "serialize [propertyKey ns \<mapsto> [name \<mapsto> W]] (makeSimpleNodeFactory (Some name) None)
           xs None Undefined st = writeEach W ns name xs st"
  using assms(2,3)
proof (induction xs arbitrary: st)
  case Nil
  then show ?case by (simp add: serialize_serializeEach definedPositions_None)
next
  case (Cons x xs)
  let ?S = "[propertyKey ns \<mapsto> [name \<mapsto> W]]"
  let ?F = "makeSimpleNodeFactory (Some name) None"
  obtain created st1 where cr: "createElementNS ns name st = (created, st1)"
    by (cases "createElementNS ns name st")
  have st1: "parentNamespace st1 = Some ns"
    using cr Cons.prems(1) by (auto simp: createElementNS_def)
  have one: "serializeValue ?S ?F Undefined x None st = W Undefined created x st1"
    using Cons.prems(1) cr by (simp add: serializeValue_in_context)
  have rest: "serialize ?S ?F xs None Undefined s = writeEach W ns name xs s"
    if "W Undefined created x st1 = Inr s" for s
  proof -
    have "parentNamespace s = Some ns" using assms(1) st1 that by blast
    moreover have "Undefined \<notin> set xs" using Cons.prems(2) by simp
    ultimately show ?thesis by (rule Cons.IH)
  qed
  have "serialize ?S ?F (x # xs) None Undefined st =
      andThen (W Undefined created x st1) (serialize ?S ?F xs None Undefined)"
  proof -
    have "x \<noteq> Undefined" using Cons.prems(2) by auto
    then show ?thesis by (simp only: serialize_Cons one if_False)
  qed
  also have "\<dots> = andThen (W Undefined created x st1) (writeEach W ns name xs)"
    using rest by (auto simp: andThen_def split: sum.splits)
  finally show ?case by (simp only: writeEach.simps cr prod.case)
qed

lemma stackTop_cong: "objectStack s' = objectStack s \<Longrightarrow> stackTop s' = stackTop s"
  by (simp add: stackTop_def)

lemma parentNamespace_cong: "objectStack s' = objectStack s \<Longrightarrow> parentNamespace s' = parentNamespace s"
  by (simp add: parentNamespace_def stackTop_def)

lemma appender_step:
  assumes "w (if wthis \<noteq> Undefined then wthis else this) e x s = Inr s2"
    and "objectStack s2 = objectStack s"
    and "getNode (stackTop s) = Inr (NodeVal p)"
  shows "makeChildAppender w wthis this e x s = Inr (appendChild p e s2)"
  using assms by (simp add: makeChildAppender_def Let_def stackTop_cong [OF assms(2)])

lemma writeEach_appender_children:
  assumes w: "\<And>t e x s. \<exists>s'. w t e x s = Inr s' \<and> objectStack s' = objectStack s
                \<and> children s' (ident p) = children s (ident p) \<and> nextId s \<le> nextId s'"
    and top: "getNode (stackTop st) = Inr (NodeVal p)"
    and fresh: "\<forall>e\<in>set (children st (ident p)). ident e < nextId st"
  shows "\<exists>st' created. writeEach (makeChildAppender w wthis) ns name xs st = Inr st'
      \<and> children st' (ident p) = children st (ident p) @ created
      \<and> length created = length xs
      \<and> (\<forall>e\<in>set created. elemNamespaceURI e = ns \<and> elemLocalName e = name
            \<and> nextId st \<le> ident e \<and> ident e < nextId st')
      \<and> distinct (map ident created)
      \<and> objectStack st' = objectStack st \<and> nextId st \<le> nextId st'"
  using top fresh
proof (induction xs arbitrary: st)
  case Nil
  then show ?case by simp
next
  case (Cons x xs)
  let ?e = "Elem (nextId st) ns name"
  let ?st1 = "st\<lparr>nextId := Suc (nextId st)\<rparr>"
  obtain s2 where s2: "w (if wthis \<noteq> Undefined then wthis else Undefined) ?e x ?st1 = Inr s2"
    "objectStack s2 = objectStack ?st1" "children s2 (ident p) = children ?st1 (ident p)"
    "nextId ?st1 \<le> nextId s2"
    using w [of "if wthis \<noteq> Undefined then wthis else Undefined" ?e x ?st1]
    by (elim exE conjE)
  let ?s3 = "appendChild p ?e s2"
  have "stackTop ?st1 = stackTop st" by (simp add: stackTop_def)
  then have top1: "getNode (stackTop ?st1) = Inr (NodeVal p)"
    using Cons.prems(1) by simp
  have step: "makeChildAppender w wthis Undefined ?e x ?st1 = Inr ?s3"
    using s2(1,2) top1 by (rule appender_step)
  have notin: "?e \<notin> set (children st (ident p))"
    using Cons.prems(2) by auto
  have ch3: "children ?s3 (ident p) = children st (ident p) @ [?e]"
    using s2(3) notin by (simp add: appendChild_def)
  have stack3: "objectStack ?s3 = objectStack st"
    using s2(2) by (simp add: appendChild_def)
  have next3: "nextId ?s3 = nextId s2" by (simp add: appendChild_def)
  have top3: "getNode (stackTop ?s3) = Inr (NodeVal p)"
    using Cons.prems(1) by (simp add: stackTop_cong [OF stack3])
  have fresh3: "\<forall>e\<in>set (children ?s3 (ident p)). ident e < nextId ?s3"
    using Cons.prems(2) s2(4) by (auto simp: ch3 next3)
  from Cons.IH [OF top3 fresh3] obtain st' created where
    run: "writeEach (makeChildAppender w wthis) ns name xs ?s3 = Inr st'"
    and ch: "children st' (ident p) = children ?s3 (ident p) @ created"
    and len: "length created = length xs"
    and each: "\<forall>e\<in>set created. elemNamespaceURI e = ns \<and> elemLocalName e = name
            \<and> nextId ?s3 \<le> ident e \<and> ident e < nextId st'"
    and dist: "distinct (map ident created)"
    and stack: "objectStack st' = objectStack ?s3" and mono: "nextId ?s3 \<le> nextId st'"
    by (elim exE conjE)
  have "writeEach (makeChildAppender w wthis) ns name (x # xs) st = Inr st'"
    using step run by (simp add: createElementNS_def andThen_def)
  moreover have "children st' (ident p) = children st (ident p) @ (?e # created)"
    using ch ch3 by simp
  moreover have "length (?e # created) = length (x # xs)" using len by simp
  moreover have "\<forall>e\<in>set (?e # created). elemNamespaceURI e = ns \<and> elemLocalName e = name
            \<and> nextId st \<le> ident e \<and> ident e < nextId st'"
    using each s2(4) mono by (auto simp: next3)
  moreover have "distinct (map ident (?e # created))"
    using dist each s2(4) by (auto simp: next3)
  moreover have "objectStack st' = objectStack st" using stack stack3 by simp
  moreover have "nextId st \<le> nextId st'" using mono s2(4) by (simp add: next3)
  ultimately show ?case by (intro exI [of _ st'] exI [of _ "?e # created"] conjI)
qed

lemma parentNamespace_getNode:
  "parentNamespace s = Some ns \<Longrightarrow>
     \<exists>q. getNode (stackTop s) = Inr (NodeVal q) \<and> elemNamespaceURI q = ns"
  by (cases "stackTop s") (auto simp: parentNamespace_def split: option.splits jsval.splits)

lemma appender_keeps_context:
  assumes "\<And>t e x s. \<exists>s'. w t e x s = Inr s' \<and> objectStack s' = objectStack s
                \<and> children s' (ident p) = children s (ident p) \<and> nextId s \<le> nextId s'"
  shows "\<forall>e x s s'. parentNamespace s = Some ns \<longrightarrow>
           makeChildAppender w wthis Undefined e x s = Inr s' \<longrightarrow> parentNamespace s' = Some ns"
proof (intro allI impI)
  fix e x s s'
  assume ctx: "parentNamespace s = Some ns" and run: "makeChildAppender w wthis Undefined e x s = Inr s'"
  obtain s2 where s2: "w (if wthis \<noteq> Undefined then wthis else Undefined) e x s = Inr s2"
    "objectStack s2 = objectStack s"
    using assms [of "if wthis \<noteq> Undefined then wthis else Undefined" e x s]
    by (elim exE conjE)
  from ctx obtain q where q: "getNode (stackTop s) = Inr (NodeVal q)"
    using parentNamespace_getNode by blast
  have "makeChildAppender w wthis Undefined e x s = Inr (appendChild q e s2)"
    using s2 q by (rule appender_step)
  with run have "s' = appendChild q e s2" by simp
  then have "objectStack s' = objectStack s"
    using s2(2) by (simp add: appendChild_def)
  then have "parentNamespace s' = parentNamespace s" by (rule parentNamespace_cong)
  with ctx show "parentNamespace s' = Some ns" by simp
qed

lemma makeArraySerializer_writeEach:
  assumes "cells st c = None \<or> cells st c = Some (elemNamespaceURI n, elemLocalName n)"
    and "Undefined \<notin> set xs"
    and "parentNamespace st = Some (elemNamespaceURI n)"
    and "\<forall>e x s s'. parentNamespace s = Some (elemNamespaceURI n) \<longrightarrow>
           W Undefined e x s = Inr s' \<longrightarrow> parentNamespace s' = Some (elemNamespaceURI n)"
  shows "makeArraySerializer W opt_this c this n (Arr xs) st =
     writeEach W (elemNamespaceURI n) (elemLocalName n) xs
       (st\<lparr>cells := (cells st)(c \<mapsto> (elemNamespaceURI n, elemLocalName n))\<rparr>)"
proof -
  let ?st1 = "st\<lparr>cells := (cells st)(c \<mapsto> (elemNamespaceURI n, elemLocalName n))\<rparr>"
  have ctx: "parentNamespace ?st1 = Some (elemNamespaceURI n)" using assms(3) by simp
  have "makeArraySerializer W opt_this c this n (Arr xs) st =
      serialize [propertyKey (elemNamespaceURI n) \<mapsto> [elemLocalName n \<mapsto> W]]
        (makeSimpleNodeFactory (Some (elemLocalName n)) None) xs None Undefined ?st1"
  proof (cases "cells st c")
    case None
    then show ?thesis by (simp add: makeArraySerializer_first)
  next
    case (Some a)
    with assms(1) have a: "cells st c = Some (elemNamespaceURI n, elemLocalName n)" by simp
    then have "(cells st)(c \<mapsto> (elemNamespaceURI n, elemLocalName n)) = cells st"
      by (rule fun_upd_idem)
    then have "?st1 = st" by simp
    then show ?thesis using a by (simp only: makeArraySerializer_cached [OF a]) simp
  qed
  also have "\<dots> = writeEach W (elemNamespaceURI n) (elemLocalName n) xs ?st1"
    using assms(4) ctx assms(2) by (rule serialize_writeEach)
  finally show ?thesis .
qed

section \<open>The serializer for arrays: namespaces\<close>

text \<open>
  C8, the claim as stated fails: the node factory that \<open>makeArraySerializer\<close> builds is
  \<open>makeSimpleNodeFactory(node.localName)\<close>, with no namespace, so the elements it creates
  take the namespace of the parent node in the context frame, not that of the node that
  triggered the serializer. Under a parent of the namespace \<open>urn:x\<close>, a node \<open>item\<close> of
  the namespace \<open>urn:y\<close> and an array of two values, the table has the key \<open>urn:y\<close>, the
  element created has the namespace \<open>urn:x\<close>, and the lookup throws a TypeError before the
  node writer is invoked: nothing is appended to the parent.
\<close>

theorem makeArraySerializer_namespace_counterexample:
  "arrayItems Undefined (Elem 7 (Some ''urn:y'') ''item'') (Arr [Str ''p'', Str ''q'']) stRoot
     = Inl (TypeError,
         stRoot\<lparr>nextId := 2, cells := (cells stRoot)(0 \<mapsto> (Some ''urn:y'', ''item''))\<rparr>)
   \<and> children (finalState
         (arrayItems Undefined (Elem 7 (Some ''urn:y'') ''item'') (Arr [Str ''p'', Str ''q'']) stRoot))
       0 = []"
  by (simp add: arrayItems_def makeArraySerializer_def write_eval stRoot_def finalState_def)

lemma serialize_other_namespace:
  assumes "parentNamespace st = Some ns'" and "propertyKey ns' \<noteq> propertyKey ns"
    and "propertyKey ns' \<notin> set objectPrototypeNames" and "x \<noteq> Undefined"
  shows "serialize [propertyKey ns \<mapsto> [name \<mapsto> W]] (makeSimpleNodeFactory (Some name) None)
           (x # xs) None Undefined st = Inl (TypeError, st\<lparr>nextId := Suc (nextId st)\<rparr>)"
proof -
  have "serializeValue [propertyKey ns \<mapsto> [name \<mapsto> W]] (makeSimpleNodeFactory (Some name) None)
          Undefined x None st = Inl (TypeError, st\<lparr>nextId := Suc (nextId st)\<rparr>)"
    using assms(1,2,3)
    by (simp add: serializeValue_def factory_in_context getMember_def createElementNS_def)
  then show ?thesis
    using assms(4) by (simp only: serialize_Cons) (simp add: andThen_def)
qed

text \<open>
  C8, amended. A serializer made by \<open>makeArraySerializer\<close>, on the invocation that sets its
  closure variables, builds a one-entry serializer table keyed by the namespace and local
  name of the triggering node, and a node factory that gives the local name of the
  triggering node and the namespace of the parent node held by the context frame at the top
  of the object stack; it re-enters \<open>serialize\<close> over the array. When that parent has the
  namespace of the triggering node and the node writer leaves such a frame at the top, the
  node writer is invoked once per value of an array of defined values, in order, each time
  on a newly created element with the namespace and local name of the triggering node.
  When the node writer is a child appender whose inner writer leaves the stack and the
  children of the parent alone, an array of \<open>m\<close> defined values gives exactly \<open>m\<close> new
  sibling elements under the parent, all with that namespace and local name. When the
  parent has another namespace, one that is not the name of a property of
  \<open>Object.prototype\<close> (the table is a plain object), the first defined value throws a
  TypeError.
\<close>

theorem makeArraySerializer_writes_each:
  "((cells st c = None \<or> cells st c = Some (elemNamespaceURI n, elemLocalName n))
      \<and> Undefined \<notin> set xs
      \<and> parentNamespace st = Some (elemNamespaceURI n)
      \<and> (\<forall>e x s s'. parentNamespace s = Some (elemNamespaceURI n) \<longrightarrow>
             nodeWriter Undefined e x s = Inr s' \<longrightarrow> parentNamespace s' = Some (elemNamespaceURI n))
    \<longrightarrow> makeArraySerializer nodeWriter opt_this c this n (Arr xs) st =
          writeEach nodeWriter (elemNamespaceURI n) (elemLocalName n) xs
            (st\<lparr>cells := (cells st)(c \<mapsto> (elemNamespaceURI n, elemLocalName n))\<rparr>))
   \<and> ((cells st c = None \<or> cells st c = Some (elemNamespaceURI n, elemLocalName n))
      \<and> Undefined \<notin> set xs
      \<and> stackTop st = Obj object \<and> map_of object ''node'' = Some (NodeVal p)
      \<and> elemNamespaceURI p = elemNamespaceURI n
      \<and> (\<forall>t e x s. \<exists>s'. w t e x s = Inr s' \<and> objectStack s' = objectStack s
             \<and> children s' (ident p) = children s (ident p) \<and> nextId s \<le> nextId s')
      \<and> (\<forall>e\<in>set (children st (ident p)). ident e < nextId st)
    \<longrightarrow> (\<exists>st' created.
          makeArraySerializer (makeChildAppender w wthis) opt_this c this n (Arr xs) st = Inr st'
          \<and> children st' (ident p) = children st (ident p) @ created
          \<and> length created = length xs
          \<and> (\<forall>e\<in>set created. elemNamespaceURI e = elemNamespaceURI n
                \<and> elemLocalName e = elemLocalName n)
          \<and> distinct (map ident created)))
   \<and> (cells st c = None \<and> parentNamespace st = Some ns'
      \<and> propertyKey ns' \<noteq> propertyKey (elemNamespaceURI n)
      \<and> propertyKey ns' \<notin> set objectPrototypeNames \<and> y \<noteq> Undefined
    \<longrightarrow> makeArraySerializer nodeWriter opt_this c this n (Arr (y # ys)) st =
          Inl (TypeError, st\<lparr>nextId := Suc (nextId st),
                 cells := (cells st)(c \<mapsto> (elemNamespaceURI n, elemLocalName n))\<rparr>))"
proof (intro conjI impI)
  assume "(cells st c = None \<or> cells st c = Some (elemNamespaceURI n, elemLocalName n))
      \<and> Undefined \<notin> set xs
      \<and> parentNamespace st = Some (elemNamespaceURI n)
      \<and> (\<forall>e x s s'. parentNamespace s = Some (elemNamespaceURI n) \<longrightarrow>
             nodeWriter Undefined e x s = Inr s' \<longrightarrow> parentNamespace s' = Some (elemNamespaceURI n))"
  then show "makeArraySerializer nodeWriter opt_this c this n (Arr xs) st =
          writeEach nodeWriter (elemNamespaceURI n) (elemLocalName n) xs
            (st\<lparr>cells := (cells st)(c \<mapsto> (elemNamespaceURI n, elemLocalName n))\<rparr>)"
    by (intro makeArraySerializer_writeEach) (elim conjE, assumption)+
next
  assume a: "(cells st c = None \<or> cells st c = Some (elemNamespaceURI n, elemLocalName n))
      \<and> Undefined \<notin> set xs
      \<and> stackTop st = Obj object \<and> map_of object ''node'' = Some (NodeVal p)
      \<and> elemNamespaceURI p = elemNamespaceURI n
      \<and> (\<forall>t e x s. \<exists>s'. w t e x s = Inr s' \<and> objectStack s' = objectStack s
             \<and> children s' (ident p) = children s (ident p) \<and> nextId s \<le> nextId s')
      \<and> (\<forall>e\<in>set (children st (ident p)). ident e < nextId st)"
  let ?st1 = "st\<lparr>cells := (cells st)(c \<mapsto> (elemNamespaceURI n, elemLocalName n))\<rparr>"
  from a have w: "\<exists>s'. w t e x s = Inr s' \<and> objectStack s' = objectStack s
             \<and> children s' (ident p) = children s (ident p) \<and> nextId s \<le> nextId s'" for t e x s
    by blast
  from a have top: "stackTop st = Obj object" "map_of object ''node'' = Some (NodeVal p)"
    and ns: "elemNamespaceURI p = elemNamespaceURI n"
    and fresh: "\<forall>e\<in>set (children st (ident p)). ident e < nextId st"
    and cell: "cells st c = None \<or> cells st c = Some (elemNamespaceURI n, elemLocalName n)"
    and defined: "Undefined \<notin> set xs"
    by blast+
  have ctx: "parentNamespace st = Some (elemNamespaceURI n)"
    using top ns by (simp add: parentNamespace_def)
  have eq: "makeArraySerializer (makeChildAppender w wthis) opt_this c this n (Arr xs) st =
      writeEach (makeChildAppender w wthis) (elemNamespaceURI n) (elemLocalName n) xs ?st1"
    using cell defined ctx appender_keeps_context [of w p, OF w]
    by (rule makeArraySerializer_writeEach)
  have "stackTop ?st1 = stackTop st" by (simp add: stackTop_def)
  then have top1: "getNode (stackTop ?st1) = Inr (NodeVal p)"
    using top by simp
  have fresh1: "\<forall>e\<in>set (children ?st1 (ident p)). ident e < nextId ?st1"
    using fresh by simp
  from writeEach_appender_children [of w p ?st1 wthis "elemNamespaceURI n" "elemLocalName n" xs,
      OF w top1 fresh1]
  obtain st' created where
    run: "writeEach (makeChildAppender w wthis) (elemNamespaceURI n) (elemLocalName n) xs ?st1 = Inr st'"
    and ch: "children st' (ident p) = children ?st1 (ident p) @ created"
    and len: "length created = length xs"
    and each: "\<forall>e\<in>set created. elemNamespaceURI e = elemNamespaceURI n
        \<and> elemLocalName e = elemLocalName n \<and> nextId ?st1 \<le> ident e \<and> ident e < nextId st'"
    and dist: "distinct (map ident created)"
    by (elim exE conjE)
  have "makeArraySerializer (makeChildAppender w wthis) opt_this c this n (Arr xs) st = Inr st'"
    using eq run by simp
  moreover have "children st' (ident p) = children st (ident p) @ created"
    using ch by simp
  moreover have "\<forall>e\<in>set created. elemNamespaceURI e = elemNamespaceURI n
                \<and> elemLocalName e = elemLocalName n"
    using each by blast
  ultimately show "\<exists>st' created.
          makeArraySerializer (makeChildAppender w wthis) opt_this c this n (Arr xs) st = Inr st'
          \<and> children st' (ident p) = children st (ident p) @ created
          \<and> length created = length xs
          \<and> (\<forall>e\<in>set created. elemNamespaceURI e = elemNamespaceURI n
                \<and> elemLocalName e = elemLocalName n)
          \<and> distinct (map ident created)"
    using len dist by (intro exI [of _ st'] exI [of _ created] conjI)
next
  assume a: "cells st c = None \<and> parentNamespace st = Some ns'
      \<and> propertyKey ns' \<noteq> propertyKey (elemNamespaceURI n)
      \<and> propertyKey ns' \<notin> set objectPrototypeNames \<and> y \<noteq> Undefined"
  let ?st1 = "st\<lparr>cells := (cells st)(c \<mapsto> (elemNamespaceURI n, elemLocalName n))\<rparr>"
  have "parentNamespace ?st1 = Some ns'" using a by simp
  from serialize_other_namespace [OF this, of "elemNamespaceURI n" y "elemLocalName n" nodeWriter ys] a
  show "makeArraySerializer nodeWriter opt_this c this n (Arr (y # ys)) st =
          Inl (TypeError, st\<lparr>nextId := Suc (nextId st),
                 cells := (cells st)(c \<mapsto> (elemNamespaceURI n, elemLocalName n))\<rparr>)"
    by (simp add: makeArraySerializer_first)
qed

theorem makeArraySerializer_writes_each_witness:
  "(case arrayItems Undefined (Elem 7 (Some ''urn:x'') ''item'') (Arr [Str ''p'', Str ''q'']) stRoot of
      Inl x \<Rightarrow> False
    | Inr st' \<Rightarrow>
        children st' 0 = [Elem 1 (Some ''urn:x'') ''item'', Elem 2 (Some ''urn:x'') ''item'']
        \<and> map (attributes st') [1, 2] = [[(''kind'', ''string'')], [(''kind'', ''string'')]])
   \<and> (\<exists>st' created.
        arrayItems Undefined (Elem 7 (Some ''urn:x'') ''item'') (Arr [Str ''p'', Str ''q'']) stRoot = Inr st'
        \<and> children st' 0 = created \<and> length created = 2
        \<and> list_all (\<lambda>e. elemNamespaceURI e = Some ''urn:x'' \<and> elemLocalName e = ''item'') created
        \<and> distinct (map ident created))
   \<and> arrayItems Undefined (Elem 7 (Some ''urn:x'') ''item'') (Arr [Str ''p'', Str ''q'']) stRoot
       = writeEach (makeChildAppender writeTypeof Undefined) (Some ''urn:x'') ''item''
           [Str ''p'', Str ''q'']
           (stRoot\<lparr>cells := (cells stRoot)(0 \<mapsto> (Some ''urn:x'', ''item''))\<rparr>)
   \<and> arrayItems Undefined (Elem 7 (Some ''urn:y'') ''item'') (Arr [Str ''p'', Str ''q'']) stRoot
       = Inl (TypeError,
           stRoot\<lparr>nextId := Suc (nextId stRoot),
                  cells := (cells stRoot)(0 \<mapsto> (Some ''urn:y'', ''item''))\<rparr>)"
proof -
  let ?n = "Elem 7 (Some ''urn:x'') ''item''"
  let ?m = "Elem 7 (Some ''urn:y'') ''item''"
  note amended = makeArraySerializer_writes_each [where st = stRoot and c = 0
      and opt_this = Undefined and this = Undefined]
  have w: "\<forall>t e x s. \<exists>s'. writeTypeof t e x s = Inr s' \<and> objectStack s' = objectStack s
             \<and> children s' (ident rootElem) = children s (ident rootElem) \<and> nextId s \<le> nextId s'"
    by (simp add: writeTypeof_def setAttribute_def)
  have ctx: "parentNamespace stRoot = Some (Some ''urn:x'')"
    by (simp add: parentNamespace_def stackTop_def stRoot_def rootElem_def)
  have hyp: "(cells stRoot 0 = None \<or> cells stRoot 0 = Some (elemNamespaceURI ?n, elemLocalName ?n))
      \<and> Undefined \<notin> set [Str ''p'', Str ''q'']
      \<and> stackTop stRoot = Obj [(''node'', NodeVal rootElem)]
      \<and> map_of [(''node'', NodeVal rootElem)] ''node'' = Some (NodeVal rootElem)
      \<and> elemNamespaceURI rootElem = elemNamespaceURI ?n
      \<and> (\<forall>t e x s. \<exists>s'. writeTypeof t e x s = Inr s' \<and> objectStack s' = objectStack s
             \<and> children s' (ident rootElem) = children s (ident rootElem) \<and> nextId s \<le> nextId s')
      \<and> (\<forall>e\<in>set (children stRoot (ident rootElem)). ident e < nextId stRoot)"
    using w by (simp add: stRoot_def stackTop_def rootElem_def)
  from amended [where n = ?n and xs = "[Str ''p'', Str ''q'']"
      and object = "[(''node'', NodeVal rootElem)]"
      and p = rootElem and w = writeTypeof and wthis = Undefined,
      THEN conjunct2, THEN conjunct1, rule_format, OF hyp]
  obtain st' created where
    run: "makeArraySerializer (makeChildAppender writeTypeof Undefined) Undefined 0 Undefined ?n
            (Arr [Str ''p'', Str ''q'']) stRoot = Inr st'"
    and ch: "children st' (ident rootElem) = children stRoot (ident rootElem) @ created"
    and len: "length created = length [Str ''p'', Str ''q'']"
    and each: "\<forall>e\<in>set created. elemNamespaceURI e = elemNamespaceURI ?n
                \<and> elemLocalName e = elemLocalName ?n"
    and dist: "distinct (map ident created)"
    by (elim exE conjE)
  have general: "\<exists>st' created.
        arrayItems Undefined ?n (Arr [Str ''p'', Str ''q'']) stRoot = Inr st'
        \<and> children st' 0 = created \<and> length created = 2
        \<and> list_all (\<lambda>e. elemNamespaceURI e = Some ''urn:x'' \<and> elemLocalName e = ''item'') created
        \<and> distinct (map ident created)"
    using run ch len each dist
    by (intro exI [of _ st'] exI [of _ created])
       (simp add: arrayItems_def rootElem_def stRoot_def list_all_iff)
  have concrete: "case arrayItems Undefined ?n (Arr [Str ''p'', Str ''q'']) stRoot of
      Inl x \<Rightarrow> False
    | Inr st' \<Rightarrow>
        children st' 0 = [Elem 1 (Some ''urn:x'') ''item'', Elem 2 (Some ''urn:x'') ''item'']
        \<and> map (attributes st') [1, 2] = [[(''kind'', ''string'')], [(''kind'', ''string'')]]"
    by (simp add: arrayItems_def makeArraySerializer_def write_eval writeTypeof_def stRoot_def)
  have keeps: "\<forall>e x s s'. parentNamespace s = Some (elemNamespaceURI ?n) \<longrightarrow>
      makeChildAppender writeTypeof Undefined Undefined e x s = Inr s' \<longrightarrow>
      parentNamespace s' = Some (elemNamespaceURI ?n)"
    by (rule appender_keeps_context [of writeTypeof rootElem]) (simp add: writeTypeof_def setAttribute_def)
  have hypA: "(cells stRoot 0 = None \<or> cells stRoot 0 = Some (elemNamespaceURI ?n, elemLocalName ?n))
      \<and> Undefined \<notin> set [Str ''p'', Str ''q'']
      \<and> parentNamespace stRoot = Some (elemNamespaceURI ?n)
      \<and> (\<forall>e x s s'. parentNamespace s = Some (elemNamespaceURI ?n) \<longrightarrow>
             makeChildAppender writeTypeof Undefined Undefined e x s = Inr s' \<longrightarrow>
             parentNamespace s' = Some (elemNamespaceURI ?n))"
    using keeps ctx by (simp add: stRoot_def)
  have each_written: "arrayItems Undefined ?n (Arr [Str ''p'', Str ''q'']) stRoot
       = writeEach (makeChildAppender writeTypeof Undefined) (Some ''urn:x'') ''item''
           [Str ''p'', Str ''q'']
           (stRoot\<lparr>cells := (cells stRoot)(0 \<mapsto> (Some ''urn:x'', ''item''))\<rparr>)"
    using amended [where n = ?n and xs = "[Str ''p'', Str ''q'']"
        and nodeWriter = "makeChildAppender writeTypeof Undefined",
        THEN conjunct1, rule_format, OF hypA]
    by (simp only: arrayItems_def elem.sel)
  have hypC: "cells stRoot 0 = None \<and> parentNamespace stRoot = Some (Some ''urn:x'')
      \<and> propertyKey (Some ''urn:x'') \<noteq> propertyKey (elemNamespaceURI ?m)
      \<and> propertyKey (Some ''urn:x'') \<notin> set objectPrototypeNames \<and> Str ''p'' \<noteq> Undefined"
    using ctx by (simp add: stRoot_def objectPrototypeNames_def)
  have other: "arrayItems Undefined ?m (Arr [Str ''p'', Str ''q'']) stRoot
       = Inl (TypeError,
           stRoot\<lparr>nextId := Suc (nextId stRoot),
                  cells := (cells stRoot)(0 \<mapsto> (Some ''urn:y'', ''item''))\<rparr>)"
    using amended [where n = ?m and y = "Str ''p''" and ys = "[Str ''q'']" and ns' = "Some ''urn:x''"
        and nodeWriter = "makeChildAppender writeTypeof Undefined",
        THEN conjunct2, THEN conjunct2, rule_format, OF hypC]
    by (simp only: arrayItems_def elem.sel)
  from concrete general each_written other show ?thesis by (intro conjI)
qed

section \<open>The serializer for arrays: the closure variables\<close>

lemma stAfterFirst_eq:
  "stAfterFirst = stRoot\<lparr>nextId := 2,
      children := (\<lambda>q. if q = 0 then [Elem 1 (Some ''urn:x'') ''item''] else []),
      attributes := (\<lambda>_. [])(Suc 0 := [(''kind'', ''string'')]),
      cells := (\<lambda>_. None)(0 \<mapsto> (Some ''urn:x'', ''item''))\<rparr>"
  by (simp add: stAfterFirst_def arrayItems_def makeArraySerializer_def write_eval writeTypeof_def
      stRoot_def finalState_def cong: if_cong)

lemma appender_keeps_cell:
  "\<forall>this e x s. cells s c \<noteq> None \<longrightarrow>
     cells (finalState (makeChildAppender writeTypeof Undefined this e x s)) c = cells s c"
  by (auto simp: makeChildAppender_def writeTypeof_def setAttribute_def appendChild_def
      finalState_def Let_def split: sum.splits jsval.splits)

text \<open>
  C10, the claim as stated fails: what a later invocation reuses is the table keyed by
  the first node's namespace and local name, and a node factory that gives the first
  node's local name and the namespace of the parent in the context frame at the time of
  that invocation. After a first invocation with a node \<open>item\<close> of the namespace
  \<open>urn:x\<close>, an invocation with a node \<open>other\<close> of the namespace \<open>urn:y\<close> under a parent of
  the namespace \<open>urn:y\<close> creates an element \<open>item\<close> of the namespace \<open>urn:y\<close>, finds no
  entry for it in the cached table and throws a TypeError: nothing is serialized under the
  first call's name and namespace.
\<close>

theorem makeArraySerializer_later_parent_counterexample:
  "cells stAfterFirst 0 = Some (Some ''urn:x'', ''item'')
   \<and> arrayItems Undefined (Elem 8 (Some ''urn:y'') ''other'') (Arr [Str ''q''])
       (stAfterFirst\<lparr>objectStack := [Obj [(''node'', NodeVal (Elem 9 (Some ''urn:y'') ''root''))]]\<rparr>)
     = Inl (TypeError,
         stAfterFirst\<lparr>objectStack := [Obj [(''node'', NodeVal (Elem 9 (Some ''urn:y'') ''root''))]],
                       nextId := 3\<rparr>)
   \<and> children stAfterFirst 9 = []"
  unfolding stAfterFirst_eq
  by (simp add: arrayItems_def makeArraySerializer_def write_eval writeTypeof_def stRoot_def)

text \<open>
  C10, amended. The closure variables \<open>serializersNS\<close> and \<open>nodeFactory\<close> of a serializer
  made by \<open>makeArraySerializer\<close> are set once: an invocation that finds them \<open>undefined\<close>
  leaves them built from the namespace and the local name of its node, whether it
  returns or throws; an invocation that finds them set runs \<open>serialize\<close> with the table
  of the node that set them and a node factory that gives that node's local name and the
  namespace of the parent in the context frame, whatever its own node is, and leaves
  them as they are. Such a later invocation, under a parent of the first node's
  namespace and with a node writer that leaves such a frame at the top, writes each
  value of an array of defined values under the first node's namespace and local name;
  under a parent of another namespace, one that is not the name of a property of
  \<open>Object.prototype\<close>, its first defined value throws a TypeError. The node writer is
  taken not to assign the variables of the closure, which JavaScript's scoping guarantees.
\<close>

theorem makeArraySerializer_caches_first_node:
  assumes "\<forall>this e x s. cells s c \<noteq> None \<longrightarrow> cells (finalState (nodeWriter this e x s)) c = cells s c"
  shows "(cells st c = None \<longrightarrow>
            cells (finalState (makeArraySerializer nodeWriter opt_this c this n x st)) c
              = Some (elemNamespaceURI n, elemLocalName n))
       \<and> (cells st c = Some (ns0, name0) \<longrightarrow>
            makeArraySerializer nodeWriter opt_this c this n x st =
              (case arrayLike x of
                 Inl e \<Rightarrow> Inl (e, st)
               | Inr xs \<Rightarrow>
                   serialize [propertyKey ns0 \<mapsto> [name0 \<mapsto> nodeWriter]]
                     (makeSimpleNodeFactory (Some name0) None) xs None Undefined st)
            \<and> makeArraySerializer nodeWriter opt_this c this n x st =
                makeArraySerializer nodeWriter opt_this c this' n' x st
            \<and> cells (finalState (makeArraySerializer nodeWriter opt_this c this n x st)) c
                = Some (ns0, name0)
            \<and> (Undefined \<notin> set xs \<and> parentNamespace st = Some ns0
                 \<and> (\<forall>e x s s'. parentNamespace s = Some ns0 \<longrightarrow>
                        nodeWriter Undefined e x s = Inr s' \<longrightarrow> parentNamespace s' = Some ns0)
               \<longrightarrow> makeArraySerializer nodeWriter opt_this c this n (Arr xs) st =
                     writeEach nodeWriter ns0 name0 xs st)
            \<and> (parentNamespace st = Some ns' \<and> propertyKey ns' \<noteq> propertyKey ns0
                 \<and> propertyKey ns' \<notin> set objectPrototypeNames \<and> y \<noteq> Undefined
               \<longrightarrow> makeArraySerializer nodeWriter opt_this c this n (Arr (y # ys)) st =
                     Inl (TypeError, st\<lparr>nextId := Suc (nextId st)\<rparr>)))"
proof (intro conjI impI)
  assume none: "cells st c = None"
  let ?st1 = "st\<lparr>cells := (cells st)(c \<mapsto> (elemNamespaceURI n, elemLocalName n))\<rparr>"
  have set: "cells ?st1 c = Some (elemNamespaceURI n, elemLocalName n)" by simp
  have "makeArraySerializer nodeWriter opt_this c this n x st =
        makeArraySerializer nodeWriter opt_this c this n x ?st1"
    using none by (simp add: makeArraySerializer_first makeArraySerializer_cached [OF set])
  with makeArraySerializer_keeps_cell [OF assms set]
  show "cells (finalState (makeArraySerializer nodeWriter opt_this c this n x st)) c
              = Some (elemNamespaceURI n, elemLocalName n)"
    by simp
next
  assume some: "cells st c = Some (ns0, name0)"
  show "makeArraySerializer nodeWriter opt_this c this n x st =
              (case arrayLike x of
                 Inl e \<Rightarrow> Inl (e, st)
               | Inr xs \<Rightarrow>
                   serialize [propertyKey ns0 \<mapsto> [name0 \<mapsto> nodeWriter]]
                     (makeSimpleNodeFactory (Some name0) None) xs None Undefined st)"
    using some by (rule makeArraySerializer_cached)
  show "makeArraySerializer nodeWriter opt_this c this n x st =
                makeArraySerializer nodeWriter opt_this c this' n' x st"
    by (simp only: makeArraySerializer_cached [OF some])
  show "cells (finalState (makeArraySerializer nodeWriter opt_this c this n x st)) c
                = Some (ns0, name0)"
    using assms some by (rule makeArraySerializer_keeps_cell)
next
  assume some: "cells st c = Some (ns0, name0)"
    and a: "Undefined \<notin> set xs \<and> parentNamespace st = Some ns0
                 \<and> (\<forall>e x s s'. parentNamespace s = Some ns0 \<longrightarrow>
                        nodeWriter Undefined e x s = Inr s' \<longrightarrow> parentNamespace s' = Some ns0)"
  have "serialize [propertyKey ns0 \<mapsto> [name0 \<mapsto> nodeWriter]]
          (makeSimpleNodeFactory (Some name0) None) xs None Undefined st
        = writeEach nodeWriter ns0 name0 xs st"
    using a by (intro serialize_writeEach) blast+
  then show "makeArraySerializer nodeWriter opt_this c this n (Arr xs) st =
                     writeEach nodeWriter ns0 name0 xs st"
    by (simp add: makeArraySerializer_cached [OF some])
next
  assume some: "cells st c = Some (ns0, name0)"
    and a: "parentNamespace st = Some ns' \<and> propertyKey ns' \<noteq> propertyKey ns0
                 \<and> propertyKey ns' \<notin> set objectPrototypeNames \<and> y \<noteq> Undefined"
  have "serialize [propertyKey ns0 \<mapsto> [name0 \<mapsto> nodeWriter]]
          (makeSimpleNodeFactory (Some name0) None) (y # ys) None Undefined st
        = Inl (TypeError, st\<lparr>nextId := Suc (nextId st)\<rparr>)"
    using a by (intro serialize_other_namespace) blast+
  then show "makeArraySerializer nodeWriter opt_this c this n (Arr (y # ys)) st =
                     Inl (TypeError, st\<lparr>nextId := Suc (nextId st)\<rparr>)"
    by (simp add: makeArraySerializer_cached [OF some])
qed

theorem makeArraySerializer_caches_first_node_witness:
  "cells stRoot 0 = None
   \<and> cells stAfterFirst 0 = Some (Some ''urn:x'', ''item'')
   \<and> children stAfterFirst 0 = [Elem 1 (Some ''urn:x'') ''item'']
   \<and> arrayItems Undefined (Elem 8 (Some ''urn:y'') ''other'') (Arr [Str ''q'']) stAfterFirst
       = arrayItems Undefined (Elem 7 (Some ''urn:x'') ''item'') (Arr [Str ''q'']) stAfterFirst
   \<and> (case arrayItems Undefined (Elem 8 (Some ''urn:y'') ''other'') (Arr [Str ''q'']) stAfterFirst of
        Inl x \<Rightarrow> False
      | Inr s2 \<Rightarrow>
          cells s2 0 = Some (Some ''urn:x'', ''item'')
          \<and> children s2 0 = [Elem 1 (Some ''urn:x'') ''item'', Elem 2 (Some ''urn:x'') ''item''])
   \<and> arrayItems Undefined (Elem 8 (Some ''urn:y'') ''other'') (Arr [Str ''q'']) stAfterFirst
       = writeEach (makeChildAppender writeTypeof Undefined) (Some ''urn:x'') ''item'' [Str ''q'']
           stAfterFirst
   \<and> arrayItems Undefined (Elem 8 (Some ''urn:y'') ''other'') (Arr [Str ''q''])
       (stAfterFirst\<lparr>objectStack := [Obj [(''node'', NodeVal (Elem 9 (Some ''urn:y'') ''root''))]]\<rparr>)
     = Inl (TypeError,
         stAfterFirst\<lparr>objectStack := [Obj [(''node'', NodeVal (Elem 9 (Some ''urn:y'') ''root''))]],
                       nextId := Suc (nextId stAfterFirst)\<rparr>)"
proof -
  let ?W = "makeChildAppender writeTypeof Undefined"
  let ?n1 = "Elem 7 (Some ''urn:x'') ''item''"
  let ?n2 = "Elem 8 (Some ''urn:y'') ''other''"
  let ?stY = "stAfterFirst\<lparr>objectStack := [Obj [(''node'', NodeVal (Elem 9 (Some ''urn:y'') ''root''))]]\<rparr>"
  have none: "cells stRoot 0 = None" by (simp add: stRoot_def)
  have first: "cells stAfterFirst 0 = Some (Some ''urn:x'', ''item'')"
    using makeArraySerializer_caches_first_node [where c = 0 and nodeWriter = ?W and st = stRoot
        and opt_this = Undefined and this = Undefined and n = ?n1 and x = "Arr [Str ''p'']",
        OF appender_keeps_cell, THEN conjunct1, rule_format, OF none]
    by (simp add: stAfterFirst_def arrayItems_def)
  note later = makeArraySerializer_caches_first_node [where c = 0 and nodeWriter = ?W
        and st = stAfterFirst and opt_this = Undefined and this = Undefined and n = ?n2
        and x = "Arr [Str ''q'']" and ?ns0.0 = "Some ''urn:x''" and ?name0.0 = "''item''"
        and this' = Undefined and n' = ?n1 and xs = "[Str ''q'']",
        OF appender_keeps_cell, THEN conjunct2, THEN mp, OF first]
  have same: "arrayItems Undefined ?n2 (Arr [Str ''q'']) stAfterFirst
       = arrayItems Undefined ?n1 (Arr [Str ''q'']) stAfterFirst"
    using later [THEN conjunct2, THEN conjunct1] by (simp add: arrayItems_def)
  have ch: "children stAfterFirst 0 = [Elem 1 (Some ''urn:x'') ''item'']"
    by (simp add: stAfterFirst_eq)
  have run: "case arrayItems Undefined ?n2 (Arr [Str ''q'']) stAfterFirst of
        Inl x \<Rightarrow> False
      | Inr s2 \<Rightarrow>
          cells s2 0 = Some (Some ''urn:x'', ''item'')
          \<and> children s2 0 = [Elem 1 (Some ''urn:x'') ''item'', Elem 2 (Some ''urn:x'') ''item'']"
    unfolding stAfterFirst_eq
    by (simp add: arrayItems_def makeArraySerializer_def write_eval writeTypeof_def stRoot_def)
  have ctx: "parentNamespace stAfterFirst = Some (Some ''urn:x'')"
    by (simp add: stAfterFirst_eq parentNamespace_def stackTop_def stRoot_def rootElem_def)
  have keeps: "\<forall>e x s s'. parentNamespace s = Some (Some ''urn:x'') \<longrightarrow>
      ?W Undefined e x s = Inr s' \<longrightarrow> parentNamespace s' = Some (Some ''urn:x'')"
    by (rule appender_keeps_context [of writeTypeof rootElem]) (simp add: writeTypeof_def setAttribute_def)
  have under_first: "arrayItems Undefined ?n2 (Arr [Str ''q'']) stAfterFirst
       = writeEach ?W (Some ''urn:x'') ''item'' [Str ''q''] stAfterFirst"
    using later [THEN conjunct2, THEN conjunct2, THEN conjunct2, THEN conjunct1, THEN mp,
        OF conjI [OF _ conjI [OF ctx keeps]]]
    by (simp add: arrayItems_def)
  have firstY: "cells ?stY 0 = Some (Some ''urn:x'', ''item'')"
    using first by simp
  have ctxY: "parentNamespace ?stY = Some (Some ''urn:y'')"
    by (simp add: parentNamespace_def stackTop_def)
  have hypY: "parentNamespace ?stY = Some (Some ''urn:y'')
      \<and> propertyKey (Some ''urn:y'') \<noteq> propertyKey (Some ''urn:x'')
      \<and> propertyKey (Some ''urn:y'') \<notin> set objectPrototypeNames \<and> Str ''q'' \<noteq> Undefined"
    using ctxY by (simp add: objectPrototypeNames_def)
  have under_other: "arrayItems Undefined ?n2 (Arr [Str ''q'']) ?stY
     = Inl (TypeError, ?stY\<lparr>nextId := Suc (nextId stAfterFirst)\<rparr>)"
    using makeArraySerializer_caches_first_node [where c = 0 and nodeWriter = ?W
        and st = ?stY and opt_this = Undefined and this = Undefined and n = ?n2
        and ?ns0.0 = "Some ''urn:x''" and ?name0.0 = "''item''" and ns' = "Some ''urn:y''"
        and y = "Str ''q''" and ys = "[]",
        OF appender_keeps_cell, THEN conjunct2, THEN mp, OF firstY,
        THEN conjunct2, THEN conjunct2, THEN conjunct2, THEN conjunct2, THEN mp, OF hypY]
    by (simp add: arrayItems_def)
  from none first ch same run under_first under_other show ?thesis by (intro conjI)
qed

end
